theory Spec2Isabelle
  imports Complex_Main "HOL-Library.Word"
begin

section \<open>JavaScript strings\<close>

text \<open>
  A JavaScript string is a sequence of UTF-16 code units: \<open>length\<close>, \<open>slice\<close>,
  \<open>split\<close> and \<open>trim\<close> all count and cut code units. Literals of the source are written
  \<open>str ''...''\<close>.
\<close>

type_synonym jsstring = "16 word list"

definition str :: "string \<Rightarrow> jsstring" where
  "str s = map of_char s"

text \<open>
  The characters removed by \<open>String.prototype.trim\<close> and matched by the regular expression
  class \<open>\s\<close>: ECMAScript's WhiteSpace and LineTerminator code points.
\<close>

definition isWhiteSpace :: "16 word \<Rightarrow> bool" where
  "isWhiteSpace c \<longleftrightarrow>
     c \<in> set [0x9, 0xA, 0xB, 0xC, 0xD, 0x20, 0xA0, 0x1680,
               0x2000, 0x2001, 0x2002, 0x2003, 0x2004, 0x2005, 0x2006, 0x2007, 0x2008, 0x2009,
               0x200A, 0x2028, 0x2029, 0x202F, 0x205F, 0x3000, 0xFEFF]"

definition trim :: "jsstring \<Rightarrow> jsstring" where
  "trim s = rev (dropWhile isWhiteSpace (rev (dropWhile isWhiteSpace s)))"

text \<open>\<open>Array.prototype.join\<close> on an array of strings.\<close>

fun join :: "jsstring \<Rightarrow> jsstring list \<Rightarrow> jsstring" where
  "join sep [] = []"
| "join sep [x] = x"
| "join sep (x # y # ys) = x @ sep @ join sep (y # ys)"

text \<open>Decimal rendering of a non-negative integer, as a template literal prints it.\<close>

fun dec :: "nat \<Rightarrow> jsstring" where
  "dec n = (if n < 10 then [48 + of_nat n] else dec (n div 10) @ [48 + of_nat (n mod 10)])"

definition showInt :: "int \<Rightarrow> jsstring" where
  "showInt i = (if i < 0 then str ''-'' @ dec (nat (- i)) else dec (nat i))"

text \<open>Truthiness of an optional string: \<open>undefined\<close> and the empty string are falsy.\<close>

fun truthy :: "jsstring option \<Rightarrow> bool" where
  "truthy None = False"
| "truthy (Some s) = (s \<noteq> [])"

text \<open>\<open>a || b\<close> on strings.\<close>

definition orDefault :: "jsstring \<Rightarrow> jsstring \<Rightarrow> jsstring" where
  "orDefault a b = (if a \<noteq> [] then a else b)"

text \<open>\<open>s.split(c)\<close> for a one-character separator.\<close>

fun splitOn :: "16 word \<Rightarrow> jsstring \<Rightarrow> jsstring list" where
  "splitOn c [] = [[]]"
| "splitOn c (x # xs) =
     (if x = c then [] # splitOn c xs
      else (case splitOn c xs of [] \<Rightarrow> [[x]] | t # ts \<Rightarrow> (x # t) # ts))"

text \<open>
  \<open>s.split(/[...]+/)\<close> for a character class \<open>sep\<close>: the string is cut at every maximal run
  of separator characters; a leading or trailing run leaves an empty first or last piece,
  and the empty string gives one empty piece.
\<close>

function splitRuns :: "(16 word \<Rightarrow> bool) \<Rightarrow> jsstring \<Rightarrow> jsstring list" where
  "splitRuns sep s =
     takeWhile (\<lambda>c. \<not> sep c) s #
       (case dropWhile (\<lambda>c. \<not> sep c) s of
          [] \<Rightarrow> []
        | c # cs \<Rightarrow> splitRuns sep (dropWhile sep cs))"
  by pat_completeness auto
termination
proof (relation "measure (\<lambda>(sep, s). length s)")
  show "wf (measure (\<lambda>(sep, s). length s))" by simp
next
  fix sep :: "16 word \<Rightarrow> bool" and s c cs
  assume eq: "dropWhile (\<lambda>c. \<not> sep c) s = c # cs"
  have "length (dropWhile sep cs) \<le> length cs"
    by (rule length_dropWhile_le)
  moreover have "length (c # cs) \<le> length s"
    using length_dropWhile_le [of "\<lambda>c. \<not> sep c" s] by (simp only: eq)
  ultimately show "((sep, dropWhile sep cs), (sep, s)) \<in> measure (\<lambda>(sep, s). length s)"
    by simp
qed

declare splitRuns.simps [simp del]

section \<open>Content truncator\<close>

record truncation =
  text' :: jsstring
  truncated :: bool

text \<open>
  The limit is the integer \<open>Number.parseInt\<close> read, or \<open>None\<close> for an absent argument.
  The suffix appended by the template literal of \<open>truncateContent\<close> is named
  \<open>truncationMarker\<close>.
\<close>

definition truncationMarker :: "int \<Rightarrow> jsstring" where
  "truncationMarker limit =
     str ''\<newline>\<newline>[Diff truncated to the first '' @ showInt limit @ str '' characters]''"

definition truncateContent :: "jsstring \<Rightarrow> int option \<Rightarrow> truncation" where
  "truncateContent content limit =
     (case limit of
        None \<Rightarrow> \<lparr>text' = content, truncated = False\<rparr>
      | Some l \<Rightarrow>
          if l = 0 \<or> l \<le> 0 then \<lparr>text' = content, truncated = False\<rparr>
          else if int (length content) \<le> l then \<lparr>text' = content, truncated = False\<rparr>
          else \<lparr>text' = take (nat l) content @ truncationMarker l, truncated = True\<rparr>)"

section \<open>Prompt composer\<close>

text \<open>
  \<open>buildPrompt\<close> takes one object and reads its nine properties; they are the nine
  arguments here, in the order of the source. An optional property is \<open>None\<close> when it is
  \<open>undefined\<close>.
\<close>

text \<open>The array \<open>parts\<close> of \<open>buildPrompt\<close>, after all pushes.\<close>

definition promptParts ::
  "jsstring \<Rightarrow> jsstring \<Rightarrow> jsstring list \<Rightarrow> jsstring option \<Rightarrow> jsstring option
     \<Rightarrow> jsstring list option \<Rightarrow> jsstring option \<Rightarrow> jsstring option \<Rightarrow> jsstring list" where
  \<open>promptParts fromSha toSha commitSummaries community tone hashtags callToAction extraInstructions =
     [str ''You are a concise social media writer for X. Compose a single post (no thread) under 280 characters.'',
      str ''Summarize '' @ dec (length commitSummaries) @ str '' commit(s) between '' @ fromSha
        @ str '' and '' @ toSha @ str '' with a focus on what users will notice.'',
      (if truthy community
       then str ''This message will share with the "'' @ the community @ str ''" community.''
       else str ''This message will post to the main timeline.'')]
     @ (if truthy tone then [str ''Adopt a '' @ the tone @ str '' tone.''] else [])
     @ (case hashtags of
          None \<Rightarrow> []
        | Some hs \<Rightarrow> if hs \<noteq> [] then [str ''Incorporate these hashtags: '' @ join (str '' '') hs] else [])
     @ (if truthy callToAction then [str ''Finish with: '' @ the callToAction] else [])
     @ [str ''Commit context:'',
        join (str ''\<newline>\<newline>---\<newline>\<newline>'') commitSummaries]
     @ (if truthy extraInstructions
        then [str ''Additional instructions: '' @ the extraInstructions] else [])
     @ [str ''Stay actionable, friendly, and avoid overly technical jargon.'']\<close>

definition buildPrompt ::
  "jsstring option \<Rightarrow> jsstring \<Rightarrow> jsstring \<Rightarrow> jsstring list \<Rightarrow> jsstring option \<Rightarrow> jsstring option
     \<Rightarrow> jsstring list option \<Rightarrow> jsstring option \<Rightarrow> jsstring option \<Rightarrow> jsstring" where
  "buildPrompt customPrompt fromSha toSha commitSummaries community tone hashtags callToAction
       extraInstructions =
     (if truthy customPrompt then the customPrompt
      else join (str ''\<newline>\<newline>'')
             (promptParts fromSha toSha commitSummaries community tone hashtags callToAction
                extraInstructions))"

section \<open>Hashtag normalisation\<close>

definition startsWithHash :: "jsstring \<Rightarrow> bool" where
  "startsWithHash v = (case v of [] \<Rightarrow> False | c # _ \<Rightarrow> c = 0x23)"

text \<open>The character class \<open>[\s,]\<close>.\<close>

definition isSeparator :: "16 word \<Rightarrow> bool" where
  "isSeparator c \<longleftrightarrow> isWhiteSpace c \<or> c = 0x2C"

text \<open>The constant \<open>hashtags\<close> of \<open>run\<close>, computed from the \<open>hashtags\<close> input.\<close>

definition parseHashtags :: "jsstring \<Rightarrow> jsstring list" where
  "parseHashtags hashtagsInput =
     map (\<lambda>v. if startsWithHash v then v else str ''#'' @ v)
       (filter (\<lambda>v. v \<noteq> [])
         (map trim (splitRuns isSeparator hashtagsInput)))"

section \<open>Numbers read from configuration strings\<close>

definition isDigit :: "16 word \<Rightarrow> bool" where
  "isDigit c \<longleftrightarrow> 0x30 \<le> c \<and> c \<le> 0x39"

definition digitsVal :: "jsstring \<Rightarrow> int" where
  "digitsVal ds = foldl (\<lambda>a c. 10 * a + (uint c - 48)) 0 ds"

text \<open>An optional sign in front of a numeral: whether it is \<open>-\<close>, and the rest.\<close>

definition takeSign :: "jsstring \<Rightarrow> bool \<times> jsstring" where
  "takeSign s =
     (case s of
        [] \<Rightarrow> (False, [])
      | c # r \<Rightarrow> if c = 0x2D then (True, r) else if c = 0x2B then (False, r) else (False, s))"

text \<open>
  \<open>Number.parseInt(s, 10)\<close>: leading white space is skipped, then an optional sign and the
  longest run of decimal digits are read; \<open>None\<close> is \<open>NaN\<close>. The value is kept as the exact
  integer: the rounding of integers above \<open>2^53\<close> to a double is not modelled. Such a value
  is compared with zero, limits a string that is always shorter, and is sent on as
  \<open>max_tokens\<close>.
\<close>

definition parseInt :: "jsstring \<Rightarrow> int option" where
  "parseInt s =
     (let (neg, u) = takeSign (dropWhile isWhiteSpace s);
          ds = takeWhile isDigit u
      in if ds = [] then None
         else Some (if neg then - digitsVal ds else digitsVal ds))"

text \<open>
  A JavaScript number: an IEEE 754 double, given by its exact value. The two zeros are
  not distinguished (they compare equal and nothing here divides).
\<close>

datatype number = NaN | PosInfinity | NegInfinity | Finite rat

text \<open>The comparisons \<open>a < b\<close> and \<open>a > b\<close> of JavaScript: false when either side is NaN.\<close>

fun numLess :: "number \<Rightarrow> number \<Rightarrow> bool" where
  "numLess NaN _ = False"
| "numLess _ NaN = False"
| "numLess PosInfinity _ = False"
| "numLess _ NegInfinity = False"
| "numLess NegInfinity _ = True"
| "numLess _ PosInfinity = True"
| "numLess (Finite a) (Finite b) = (a < b)"

text \<open>The number of binary digits of a positive integer.\<close>

function bitLength :: "int \<Rightarrow> nat" where
  "bitLength n = (if n \<le> 0 then 0 else Suc (bitLength (n div 2)))"
  by pat_completeness auto
termination
  by (relation "measure nat") auto

text \<open>\<open>\<lfloor>log\<^sub>2 (p / q)\<rfloor>\<close> for positive \<open>p\<close> and \<open>q\<close>.\<close>

definition floorLog2 :: "int \<Rightarrow> int \<Rightarrow> int" where
  "floorLog2 p q =
     (let d = int (bitLength p) - int (bitLength q)
      in if (if 0 \<le> d then q * 2 ^ nat d \<le> p else q \<le> p * 2 ^ nat (- d)) then d else d - 1)"

text \<open>
  The double nearest to the non-negative rational \<open>p / q\<close> (round to nearest, ties to
  even): the spacing of doubles around it is \<open>2^(e - 52)\<close>, where \<open>e\<close> is its binary
  exponent, at least \<open>-1022\<close>; a result of \<open>2^1024\<close> or more is \<open>Infinity\<close>.
\<close>

definition roundToDouble :: "int \<Rightarrow> int \<Rightarrow> number" where
  "roundToDouble p q =
     (if p = 0 then Finite 0
      else
        let e = max (floorLog2 p q) (- 1022);
            num = (if e - 52 < 0 then p * 2 ^ nat (52 - e) else p);
            den = (if e - 52 < 0 then q else q * 2 ^ nat (e - 52));
            f = num div den;
            n = (if 2 * (num mod den) < den then f
                 else if den < 2 * (num mod den) then f + 1
                 else if even f then f else f + 1);
            r = (of_int n :: rat) * 2 powi (e - 52)
        in if 2 ^ 1024 \<le> r then PosInfinity else Finite r)"

definition negateNumber :: "number \<Rightarrow> number" where
  "negateNumber x =
     (case x of NaN \<Rightarrow> NaN | PosInfinity \<Rightarrow> NegInfinity | NegInfinity \<Rightarrow> PosInfinity
      | Finite r \<Rightarrow> Finite (- r))"

text \<open>The exponent part \<open>e\<close>, optional sign, digits of a decimal literal; 0 when there is none.\<close>

definition exponentPart :: "jsstring \<Rightarrow> int" where
  "exponentPart s =
     (case s of
        [] \<Rightarrow> 0
      | c # r \<Rightarrow>
          if c = 0x65 \<or> c = 0x45 then
            (let (neg, u) = takeSign r; ds = takeWhile isDigit u
             in if ds = [] then 0 else if neg then - digitsVal ds else digitsVal ds)
          else 0)"

text \<open>
  \<open>Number.parseFloat(s)\<close>: leading white space is skipped and the longest prefix that is a
  decimal literal is read (sign, \<open>Infinity\<close>, or digits with an optional fraction and
  exponent); the result is \<open>NaN\<close> when there is no such prefix, and else the double nearest
  to the literal's value.
\<close>

definition parseFloat :: "jsstring \<Rightarrow> number" where
  "parseFloat s =
     (let (neg, u) = takeSign (dropWhile isWhiteSpace s) in
      if take 8 u = str ''Infinity'' then (if neg then NegInfinity else PosInfinity)
      else
        let ip = takeWhile isDigit u;
            r1 = dropWhile isDigit u;
            (fp, r2) = (case r1 of
                          [] \<Rightarrow> ([], [])
                        | c # r \<Rightarrow> if c = 0x2E then (takeWhile isDigit r, dropWhile isDigit r)
                                   else ([], r1))
        in if ip = [] \<and> fp = [] then NaN
           else
             let k = exponentPart r2 - int (length fp);
                 m = digitsVal (ip @ fp);
                 d = (if 0 \<le> k then roundToDouble (m * 10 ^ nat k) 1
                      else roundToDouble m (10 ^ nat (- k)))
             in if neg then negateNumber d else d)"

section \<open>Effects: the log of a run\<close>

text \<open>
  A request handed to \<open>fetch\<close>: the URL, the \<open>Authorization\<close> header and the object given
  to \<open>JSON.stringify\<close> for the body (the method is always POST and the content type JSON).
\<close>

datatype body =
    ChatBody jsstring int number "(jsstring \<times> jsstring) list"
  | PostBody jsstring

record request =
  url :: jsstring
  authorization :: jsstring
  payload :: body

text \<open>
  What the program does to the outside, in order: the calls to the logging and output
  functions of the actions toolkit, the shell commands executed and the requests fetched.
  The toolkit's logging, output and summary calls are taken to return normally.
\<close>

datatype event =
    Debug jsstring
  | Info jsstring
  | Notice jsstring
  | SetOutput jsstring jsstring
  | SetFailed jsstring
  | ExecSync jsstring
  | Fetch request
  | SummaryWrite "jsstring list"

text \<open>
  A computation logs events and either returns a value or throws; of a thrown error only
  the message is ever read, so an error is its message. An awaited promise is the same: the
  program awaits every promise at once.
\<close>

type_synonym 'a io = "event list \<times> (jsstring + 'a)"

definition ret :: "'a \<Rightarrow> 'a io" where
  "ret x = ([], Inr x)"

definition throw :: "jsstring \<Rightarrow> 'a io" where
  "throw msg = ([], Inl msg)"

definition emit :: "event list \<Rightarrow> unit io" where
  "emit evs = (evs, Inr ())"

definition lift :: "jsstring + 'a \<Rightarrow> 'a io" where
  "lift r = ([], r)"

definition bind :: "'a io \<Rightarrow> ('a \<Rightarrow> 'b io) \<Rightarrow> 'b io" where
  "bind m f =
     (case m of
        (evs, Inl msg) \<Rightarrow> (evs, Inl msg)
      | (evs, Inr x) \<Rightarrow> (case f x of (evs', r) \<Rightarrow> (evs @ evs', r)))"

section \<open>Version-control queries\<close>

text \<open>
  \<open>execSync\<close> is the shell: it maps a command to its standard output, or throws with a
  message.
\<close>

type_synonym shell = "jsstring \<Rightarrow> jsstring + jsstring"

definition escapeShellArg :: "jsstring \<Rightarrow> jsstring" where
  "escapeShellArg value =
     [0x27] @ concat (map (\<lambda>c. if c = 0x27 then [0x27, 0x5C, 0x27, 0x27] else [c]) value) @ [0x27]"

definition runCommand :: "shell \<Rightarrow> jsstring \<Rightarrow> jsstring io" where
  "runCommand execSync command =
     ([Debug (str ''Executing: '' @ command), ExecSync command], execSync command)"

definition resolveCommit :: "shell \<Rightarrow> jsstring \<Rightarrow> jsstring io" where
  \<open>resolveCommit execSync ref =
     (case runCommand execSync (str ''git rev-parse '' @ ref) of
        (evs, Inr out) \<Rightarrow> (evs, Inr (trim out))
      | (evs, Inl msg) \<Rightarrow>
          (evs, Inl (str ''Failed to resolve commit reference "'' @ ref @ str ''": '' @ msg)))\<close>

definition listCommitsInRange :: "shell \<Rightarrow> jsstring \<Rightarrow> jsstring \<Rightarrow> jsstring list io" where
  "listCommitsInRange execSync fromSha toSha =
     (case runCommand execSync (str ''git rev-list --reverse '' @ fromSha @ str ''..'' @ toSha) of
        (evs, Inr out) \<Rightarrow>
          (let output = trim out
           in if output = [] then (evs, Inr [])
              else (evs, Inr (filter (\<lambda>line. line \<noteq> []) (splitOn 0xA output))))
      | (evs, Inl msg) \<Rightarrow>
          (evs, Inl (str ''Failed to list commits between '' @ fromSha @ str '' and '' @ toSha
                      @ str '': '' @ msg)))"

definition readCommitTitle :: "shell \<Rightarrow> jsstring \<Rightarrow> jsstring io" where
  "readCommitTitle execSync sha =
     bind (runCommand execSync (str ''git show -s --format=%s '' @ sha)) (\<lambda>out. ret (trim out))"

definition readCommitBody :: "shell \<Rightarrow> jsstring \<Rightarrow> jsstring io" where
  "readCommitBody execSync sha =
     bind (runCommand execSync (str ''git show -s --format=%b '' @ sha)) (\<lambda>out. ret (trim out))"

definition readCommitDiff :: "shell \<Rightarrow> jsstring \<Rightarrow> jsstring list \<Rightarrow> jsstring io" where
  "readCommitDiff execSync sha diffPaths =
     (let pathClause =
            (if diffPaths \<noteq> [] then str '' -- '' @ join (str '' '') (map escapeShellArg diffPaths)
             else [])
      in runCommand execSync (str ''git show '' @ sha @ str '' --format= '' @ pathClause))"

section \<open>Commit summary builder\<close>

text \<open>The array \<open>sections\<close> of \<open>buildCommitSummary\<close>, after all pushes.\<close>

definition summarySections :: "jsstring \<Rightarrow> jsstring \<Rightarrow> jsstring \<Rightarrow> truncation \<Rightarrow> jsstring list" where
  "summarySections commit title body truncatedDiff =
     [str ''Commit: '' @ commit, str ''Title: '' @ title]
     @ (if body \<noteq> [] then [str ''Body:\<newline>'' @ body] else [])
     @ (if trim (text' truncatedDiff) \<noteq> [] then [str ''Diff preview:\<newline>'' @ text' truncatedDiff]
        else [])"

definition buildCommitSummary :: "shell \<Rightarrow> jsstring \<Rightarrow> int option \<Rightarrow> jsstring list \<Rightarrow> jsstring io" where
  "buildCommitSummary execSync commit maxDiffChars diffPaths =
     bind (readCommitTitle execSync commit) (\<lambda>title.
     bind (readCommitBody execSync commit) (\<lambda>body.
     bind (readCommitDiff execSync commit diffPaths) (\<lambda>diff.
       let truncatedDiff = truncateContent diff maxDiffChars
       in ret (join (str ''\<newline>\<newline>'') (summarySections commit title body truncatedDiff)))))"

section \<open>Commit range collector\<close>

text \<open>The constant \<open>commitOrder\<close> of \<open>run\<close>.\<close>

definition commitOrder :: "bool \<Rightarrow> jsstring \<Rightarrow> jsstring list \<Rightarrow> jsstring list" where
  "commitOrder includeStartCommit fromSha commitsInRange =
     (if includeStartCommit then fromSha # commitsInRange else commitsInRange)"

text \<open>
  The commit range of \<open>run\<close>: both references are resolved, the range between them is
  listed, and the start commit is put in front when asked for. The result is \<open>fromSha\<close>,
  \<open>toSha\<close> and \<open>commitOrder\<close>.
\<close>

definition collectCommits ::
  "shell \<Rightarrow> jsstring \<Rightarrow> jsstring \<Rightarrow> bool \<Rightarrow> (jsstring \<times> jsstring \<times> jsstring list) io" where
  "collectCommits sh startRef endRefInput includeStartCommit =
     bind (resolveCommit sh startRef) (\<lambda>fromSha.
     bind (resolveCommit sh (orDefault endRefInput (str ''HEAD''))) (\<lambda>toSha.
     bind (listCommitsInRange sh fromSha toSha) (\<lambda>commitsInRange.
       ret (fromSha, toSha, commitOrder includeStartCommit fromSha commitsInRange))))"

section \<open>The completion and publish services\<close>

text \<open>
  What \<open>fetch\<close> resolves to: the status, and what \<open>response.text()\<close> and
  \<open>response.json()\<close> give (either may throw). The parsed body has the shape the service
  documents; a property that is missing or \<open>null\<close> is \<open>None\<close>.
\<close>

record 'a response =
  ok :: bool
  status :: nat
  statusText :: jsstring
  bodyText :: "jsstring + jsstring"
  bodyJson :: "jsstring + 'a"

text \<open>The body of a chat completion: \<open>{choices: [{message: {content}}]}\<close>.\<close>

record chatMessage =
  content :: "jsstring option"

record chatChoice =
  message :: "chatMessage option"

record chatData =
  choices :: "chatChoice list option"

text \<open>
  The body of a publish response: \<open>errors\<close> lists the \<open>message\<close> of each entry of
  \<open>data.errors\<close>, \<open>dataId\<close> is \<open>data.data.id\<close>.
\<close>

record xData =
  errors :: "jsstring option list option"
  title :: "jsstring option"
  dataId :: "jsstring option"

definition MODELS_ENDPOINT :: jsstring where
  "MODELS_ENDPOINT = str ''https://models.github.ai/inference/chat/completions''"

definition DEFAULT_SYSTEM_PROMPT :: jsstring where
  "DEFAULT_SYSTEM_PROMPT =
     str ''You are a social media copywriter who crafts concise, engaging posts for X (formerly Twitter). Stay under 280 characters in a single post and highlight what matters to users.''"

text \<open>\<open>fetch\<close>: the request is logged and the service answers, or the call throws.\<close>

definition fetch :: "(request \<Rightarrow> jsstring + 'a response) \<Rightarrow> request \<Rightarrow> 'a response io" where
  "fetch service req = ([Fetch req], service req)"

definition callModel ::
  "(request \<Rightarrow> jsstring + chatData response) \<Rightarrow> jsstring \<Rightarrow> jsstring \<Rightarrow> number \<Rightarrow> int
     \<Rightarrow> jsstring \<Rightarrow> jsstring \<Rightarrow> jsstring io" where
  "callModel service token model temperature maxTokens systemPrompt prompt =
     bind (fetch service
             \<lparr>url = MODELS_ENDPOINT,
              authorization = str ''Bearer '' @ token,
              payload = ChatBody model maxTokens temperature
                          [(str ''system'', systemPrompt), (str ''user'', prompt)]\<rparr>) (\<lambda>response.
     if \<not> ok response then
       bind (lift (bodyText response)) (\<lambda>t.
         throw (str ''Model request failed with status '' @ dec (status response) @ str '': '' @ t))
     else
       bind (lift (bodyJson response)) (\<lambda>data.
         let choice = (case choices data of
                         None \<Rightarrow> None
                       | Some cs \<Rightarrow> (case cs of [] \<Rightarrow> None | c # _ \<Rightarrow> Some c));
             cont = (case choice of
                       None \<Rightarrow> None
                     | Some c \<Rightarrow> (case message c of None \<Rightarrow> None | Some m \<Rightarrow> content m))
         in if \<not> truthy cont then throw (str ''Model response did not include any content.'')
            else ret (trim (the cont))))"

text \<open>
  \<open>encodeURIComponent\<close> is the runtime's; it is a parameter here (it may throw on a lone
  surrogate).
\<close>

definition postToX ::
  "(request \<Rightarrow> jsstring + xData response) \<Rightarrow> (jsstring \<Rightarrow> jsstring + jsstring) \<Rightarrow> jsstring
     \<Rightarrow> jsstring \<Rightarrow> jsstring option \<Rightarrow> xData io" where
  "postToX service encodeURIComponent text bearerToken communityId =
     bind (if truthy communityId then
             bind (lift (encodeURIComponent (the communityId))) (\<lambda>encoded.
               ret (str ''https://api.twitter.com/2/communities/'' @ encoded @ str ''/posts''))
           else ret (str ''https://api.twitter.com/2/tweets'')) (\<lambda>endpoint.
     bind (fetch service
             \<lparr>url = endpoint,
              authorization = str ''Bearer '' @ bearerToken,
              payload = PostBody text\<rparr>) (\<lambda>response.
     bind (lift (bodyJson response)) (\<lambda>data.
       if \<not> ok response then
         (let joined = (case errors data of
                          None \<Rightarrow> None
                        | Some es \<Rightarrow> Some (join (str '', '') (map the (filter truthy es))));
              errorMessage = (if truthy joined then the joined
                              else if truthy (title data) then the (title data)
                              else statusText response)
          in throw (str ''X API request failed ('' @ dec (status response) @ str ''): ''
                      @ errorMessage))
       else ret data)))"

section \<open>Pipeline orchestrator\<close>

text \<open>
  Everything \<open>run\<close> reads from outside: what the getters of the actions toolkit return for
  each input (\<open>getInput\<close> with \<open>required\<close> and \<open>getBooleanInput\<close> may throw), the two
  environment variables, the shell, and the two services behind \<open>fetch\<close>.
\<close>

record world =
  input_from :: "jsstring + jsstring"
  input_to :: jsstring
  input_include_start_commit :: "jsstring + bool"
  input_max_diff_chars :: jsstring
  input_max_output_tokens :: jsstring
  input_temperature :: jsstring
  input_model :: jsstring
  input_system_prompt :: jsstring
  input_extra_instructions :: jsstring
  input_prompt :: jsstring
  input_tone :: jsstring
  input_call_to_action :: jsstring
  input_community :: jsstring
  input_hashtags :: jsstring
  input_paths :: "jsstring list"
  env_GITHUB_TOKEN :: "jsstring option"
  env_X_BEARER_TOKEN :: "jsstring option"
  execSync :: shell
  encodeURIComponent :: "jsstring \<Rightarrow> jsstring + jsstring"
  completionService :: "request \<Rightarrow> jsstring + chatData response"
  publishService :: "request \<Rightarrow> jsstring + xData response"

text \<open>The \<open>map\<close> over \<open>commitOrder\<close> in \<open>run\<close>: one summary per commit, in order.\<close>

fun collectSummaries ::
  "shell \<Rightarrow> int \<Rightarrow> jsstring list \<Rightarrow> nat \<Rightarrow> nat \<Rightarrow> jsstring list \<Rightarrow> jsstring list io" where
  "collectSummaries sh maxDiffChars diffPaths len index [] = ret []"
| "collectSummaries sh maxDiffChars diffPaths len index (sha # rest) =
     bind (emit [Info (str ''Collecting commit '' @ dec (index + 1) @ str ''/'' @ dec len
                        @ str '': '' @ sha)]) (\<lambda>_.
     bind (buildCommitSummary sh sha (Some maxDiffChars) diffPaths) (\<lambda>summary.
     bind (collectSummaries sh maxDiffChars diffPaths len (index + 1) rest) (\<lambda>summaries.
       ret (summary # summaries))))"

text \<open>The error messages of the three numeric validations.\<close>

definition maxDiffCharsError :: "jsstring \<Rightarrow> jsstring" where
  \<open>maxDiffCharsError maxDiffCharsInput =
     str ''"max_diff_chars" must be a non-negative integer. Received "'' @ maxDiffCharsInput
       @ str ''".''\<close>

definition maxOutputTokensError :: "jsstring \<Rightarrow> jsstring" where
  \<open>maxOutputTokensError maxOutputTokensInput =
     str ''"max_output_tokens" must be a positive integer. Received "'' @ maxOutputTokensInput
       @ str ''".''\<close>

definition temperatureError :: "jsstring \<Rightarrow> jsstring" where
  \<open>temperatureError temperatureInput =
     str ''"temperature" must be a number between 0 and 2. Received "'' @ temperatureInput
       @ str ''".''\<close>

text \<open>The configuration \<open>run\<close> holds once its inputs are read and validated.\<close>

record config =
  startRef :: jsstring
  endRefInput :: jsstring
  includeStartCommit :: bool
  communityInput :: jsstring
  diffPaths :: "jsstring list"
  githubToken :: jsstring
  xBearerToken :: jsstring
  maxDiffChars :: int
  maxOutputTokens :: int
  temperature :: number

text \<open>
  The first part of \<open>run\<close>: reading the inputs and the environment and validating them;
  the first failed check throws.
\<close>

definition readConfig :: "world \<Rightarrow> config io" where
  "readConfig w =
     bind (lift (input_from w)) (\<lambda>fromInput.
     bind (lift (input_include_start_commit w)) (\<lambda>includeStart.
       let maxDiffCharsInput = orDefault (input_max_diff_chars w) (str ''2000'');
           maxOutputTokensInput = orDefault (input_max_output_tokens w) (str ''400'');
           temperatureInput = orDefault (input_temperature w) (str ''0.2'')
       in
       if \<not> truthy (env_GITHUB_TOKEN w) then
         throw (str ''GITHUB_TOKEN environment variable is required to call GitHub Models API.'')
       else if \<not> truthy (env_X_BEARER_TOKEN w) then
         throw (str ''X_BEARER_TOKEN environment variable is required to post to X.'')
       else
         (case parseInt maxDiffCharsInput of
            None \<Rightarrow> throw (maxDiffCharsError maxDiffCharsInput)
          | Some maxDiff \<Rightarrow>
              if maxDiff < 0 then throw (maxDiffCharsError maxDiffCharsInput)
              else
                (case parseInt maxOutputTokensInput of
                   None \<Rightarrow> throw (maxOutputTokensError maxOutputTokensInput)
                 | Some maxOut \<Rightarrow>
                     if maxOut \<le> 0 then throw (maxOutputTokensError maxOutputTokensInput)
                     else
                       (let temp = parseFloat temperatureInput
                        in if temp = NaN \<or> numLess temp (Finite 0) \<or> numLess (Finite 2) temp
                           then throw (temperatureError temperatureInput)
                           else ret \<lparr>startRef = trim fromInput,
                                     endRefInput = trim (input_to w),
                                     includeStartCommit = includeStart,
                                     communityInput = trim (input_community w),
                                     diffPaths = filter (\<lambda>v. v \<noteq> []) (map trim (input_paths w)),
                                     githubToken = the (env_GITHUB_TOKEN w),
                                     xBearerToken = the (env_X_BEARER_TOKEN w),
                                     maxDiffChars = maxDiff,
                                     maxOutputTokens = maxOut,
                                     temperature = temp\<rparr>)))))"

text \<open>The events of the short circuit on an empty commit range.\<close>

definition skipEvents :: "jsstring \<Rightarrow> jsstring \<Rightarrow> jsstring \<Rightarrow> event list" where
  "skipEvents fromSha toSha community =
     [Notice (str ''No commits found between '' @ fromSha @ str '' and '' @ toSha
                @ str ''. Skipping X post.''),
      SetOutput (str ''generated-post'') [],
      SetOutput (str ''post-id'') [],
      SetOutput (str ''post-url'') [],
      SetOutput (str ''community-id'') community]"

text \<open>
  The last part of \<open>run\<close>, for a non-empty commit range: the prompt is composed (the
  constant \<open>prompt\<close> of \<open>run\<close> is \<open>runPrompt\<close>), the completion service writes the post
  and the publish service receives it.
\<close>

definition runPrompt :: "world \<Rightarrow> config \<Rightarrow> jsstring \<Rightarrow> jsstring \<Rightarrow> jsstring list \<Rightarrow> jsstring" where
  "runPrompt w cfg fromSha toSha summaries =
     buildPrompt (Some (input_prompt w)) fromSha toSha summaries
       (Some (communityInput cfg)) (Some (input_tone w))
       (Some (parseHashtags (input_hashtags w)))
       (Some (input_call_to_action w)) (Some (input_extra_instructions w))"

definition generateAndPublish ::
  "world \<Rightarrow> config \<Rightarrow> jsstring \<Rightarrow> jsstring \<Rightarrow> jsstring list \<Rightarrow> unit io" where
  \<open>generateAndPublish w cfg fromSha toSha summaries =
     (let prompt = runPrompt w cfg fromSha toSha summaries;
          systemPrompt = orDefault (input_system_prompt w) DEFAULT_SYSTEM_PROMPT;
          model = orDefault (input_model w) (str ''openai/gpt-4o-mini'')
      in
      bind (emit [Info (str ''Requesting post copy from model "'' @ model @ str ''"...'')]) (\<lambda>_.
      bind (callModel (completionService w) (githubToken cfg) model (temperature cfg)
              (maxOutputTokens cfg) systemPrompt prompt) (\<lambda>generatedPost.
      bind (emit [Info (str ''Publishing generated post to X...'')]) (\<lambda>_.
      bind (postToX (publishService w) (encodeURIComponent w) generatedPost (xBearerToken cfg)
              (if communityInput cfg \<noteq> [] then Some (communityInput cfg) else None))
        (\<lambda>xResponse.
      let postId = (if truthy (dataId xResponse) then the (dataId xResponse) else []);
          postUrl = (if postId \<noteq> [] then str ''https://x.com/i/web/status/'' @ postId else [])
      in emit [SetOutput (str ''generated-post'') generatedPost,
               SetOutput (str ''post-id'') postId,
               SetOutput (str ''post-url'') postUrl,
               SetOutput (str ''community-id'') (communityInput cfg),
               SummaryWrite [str ''## AI generated X post\<newline>'',
                             generatedPost @ str ''\<newline>'',
                             (if postUrl \<noteq> [] then str ''Posted at '' @ postUrl
                              else str ''Publication succeeded without a retrievable URL.'')],
               Info (str ''Post published successfully.'')])))))\<close>

text \<open>The body of the \<open>try\<close> block of \<open>run\<close>.\<close>

definition runBody :: "world \<Rightarrow> unit io" where
  "runBody w =
     bind (readConfig w) (\<lambda>cfg.
     bind (collectCommits (execSync w) (startRef cfg) (endRefInput cfg) (includeStartCommit cfg))
       (\<lambda>(fromSha, toSha, order).
       if order = [] then emit (skipEvents fromSha toSha (communityInput cfg))
       else
         bind (collectSummaries (execSync w) (maxDiffChars cfg) (diffPaths cfg) (length order) 0 order)
           (\<lambda>summaries. generateAndPublish w cfg fromSha toSha summaries)))"

text \<open>\<open>run\<close>: an error thrown in the body is caught and reported with \<open>setFailed\<close>.\<close>

definition run :: "world \<Rightarrow> event list" where
  "run w =
     (case runBody w of
        (evs, Inl msg) \<Rightarrow> evs @ [SetFailed msg]
      | (evs, Inr _) \<Rightarrow> evs)"

section \<open>The specification's wording, for comparison\<close>

text \<open>
  The prompt as the specification lists it: nine fragments a to i in a fixed order, an
  optional one being \<open>None\<close> when it is left out; fragment g is the header followed by the
  commit summaries joined with the marker line.
\<close>

definition promptFragments ::
  "jsstring \<Rightarrow> jsstring \<Rightarrow> jsstring list \<Rightarrow> jsstring option \<Rightarrow> jsstring option
     \<Rightarrow> jsstring list option \<Rightarrow> jsstring option \<Rightarrow> jsstring option \<Rightarrow> jsstring option list" where
  \<open>promptFragments fromSha toSha commitSummaries community tone hashtags callToAction extraInstructions =
     [Some (str ''You are a concise social media writer for X. Compose a single post (no thread) under 280 characters.''),
      Some (str ''Summarize '' @ dec (length commitSummaries) @ str '' commit(s) between '' @ fromSha
              @ str '' and '' @ toSha @ str '' with a focus on what users will notice.''),
      Some (if truthy community
            then str ''This message will share with the "'' @ the community @ str ''" community.''
            else str ''This message will post to the main timeline.''),
      (if truthy tone then Some (str ''Adopt a '' @ the tone @ str '' tone.'') else None),
      (if hashtags \<noteq> None \<and> hashtags \<noteq> Some []
       then Some (str ''Incorporate these hashtags: '' @ join (str '' '') (the hashtags)) else None),
      (if truthy callToAction then Some (str ''Finish with: '' @ the callToAction) else None),
      Some (str ''Commit context:'' @ str ''\<newline>\<newline>''
              @ join (str ''\<newline>\<newline>---\<newline>\<newline>'') commitSummaries),
      (if truthy extraInstructions
       then Some (str ''Additional instructions: '' @ the extraInstructions) else None),
      Some (str ''Stay actionable, friendly, and avoid overly technical jargon.'')]\<close>

text \<open>The fragments that are included, in their order.\<close>

definition included :: "jsstring option list \<Rightarrow> jsstring list" where
  "included fragments = map the (filter (\<lambda>f. f \<noteq> None) fragments)"

text \<open>
  Splitting on commas and white space as the specification words it: every separator
  character ends a token, and empty tokens are dropped.
\<close>

fun splitEach :: "(16 word \<Rightarrow> bool) \<Rightarrow> jsstring \<Rightarrow> jsstring list" where
  "splitEach sep [] = [[]]"
| "splitEach sep (c # cs) =
     (if sep c then [] # splitEach sep cs
      else (case splitEach sep cs of [] \<Rightarrow> [[c]] | t # ts \<Rightarrow> (c # t) # ts))"

definition specHashtagTokens :: "jsstring \<Rightarrow> jsstring list" where
  "specHashtagTokens s = filter (\<lambda>t. t \<noteq> []) (splitEach isSeparator s)"

section \<open>Kinds of events\<close>

fun isFetch :: "event \<Rightarrow> bool" where
  "isFetch (Fetch _) = True"
| "isFetch _ = False"

fun isSetFailed :: "event \<Rightarrow> bool" where
  "isSetFailed (SetFailed _) = True"
| "isSetFailed _ = False"

section \<open>An example environment\<close>

text \<open>
  A repository with the commits \<open>a1\<close> and \<open>b2\<close> (the head); \<open>listed\<close> is what
  \<open>git rev-list\<close> prints for the range between them.
\<close>

definition demoShell :: "jsstring \<Rightarrow> shell" where
  "demoShell listed command =
     (if command = str ''git rev-parse a1'' then Inr (str ''a1\<newline>'')
      else if command = str ''git rev-parse HEAD'' then Inr (str ''b2\<newline>'')
      else if command = str ''git rev-list --reverse a1..b2'' then Inr listed
      else if command = str ''git show -s --format=%s b2'' then Inr (str ''Fix login\<newline>'')
      else if command = str ''git show -s --format=%b b2'' then Inr (str ''\<newline>'')
      else if command = str ''git show b2 --format= '' then Inr (str ''+ok\<newline>'')
      else Inl (str ''fatal: bad revision''))"

text \<open>A completion service that always answers with \<open>reply\<close>, and a publish service that
  accepts every post.\<close>

definition demoCompletion :: "jsstring \<Rightarrow> request \<Rightarrow> jsstring + chatData response" where
  "demoCompletion reply req =
     Inr \<lparr>ok = True, status = 200, statusText = str ''OK'', bodyText = Inr [],
          bodyJson = Inr \<lparr>choices = Some [\<lparr>message = Some \<lparr>content = Some reply\<rparr>\<rparr>]\<rparr>\<rparr>"

definition demoPublish :: "request \<Rightarrow> jsstring + xData response" where
  "demoPublish req =
     Inr \<lparr>ok = True, status = 201, statusText = str ''Created'', bodyText = Inr [],
          bodyJson = Inr \<lparr>errors = None, title = None, dataId = Some (str ''42'')\<rparr>\<rparr>"

definition demoWorld :: "jsstring \<Rightarrow> jsstring \<Rightarrow> jsstring \<Rightarrow> jsstring \<Rightarrow> world" where
  "demoWorld listed temperatureIn communityIn reply =
     \<lparr>input_from = Inr (str ''a1''),
      input_to = [],
      input_include_start_commit = Inr False,
      input_max_diff_chars = [],
      input_max_output_tokens = [],
      input_temperature = temperatureIn,
      input_model = [],
      input_system_prompt = [],
      input_extra_instructions = [],
      input_prompt = [],
      input_tone = [],
      input_call_to_action = [],
      input_community = communityIn,
      input_hashtags = [],
      input_paths = [],
      env_GITHUB_TOKEN = Some (str ''ghs''),
      env_X_BEARER_TOKEN = Some (str ''xbt''),
      execSync = demoShell listed,
      encodeURIComponent = Inr,
      completionService = demoCompletion reply,
      publishService = demoPublish\<rparr>"

text \<open>The configuration \<open>run\<close> reads in the example environment for the temperature \<open>0.5\<close>.\<close>

definition demoConfig :: "jsstring \<Rightarrow> config" where
  "demoConfig communityIn =
     \<lparr>startRef = str ''a1'',
      endRefInput = [],
      includeStartCommit = False,
      communityInput = communityIn,
      diffPaths = [],
      githubToken = str ''ghs'',
      xBearerToken = str ''xbt'',
      maxDiffChars = 2000,
      maxOutputTokens = 400,
      temperature = Finite (1 / 2)\<rparr>"

section \<open>Basic facts about joining\<close>

lemma join_Cons: "join sep (x # xs) = (if xs = [] then x else x @ sep @ join sep xs)"
  by (cases xs) simp_all

lemma join_glue: "join sep (xs @ [a, b] @ ys) = join sep (xs @ [a @ sep @ b] @ ys)"
  by (induction sep xs rule: join.induct) (simp_all add: join_Cons)

lemma join_prefix: "\<exists>rest. join sep (x # xs) = x @ rest"
  by (simp add: join_Cons)

section \<open>Basic facts about computations\<close>

lemma bind_Inr: "bind (evs, Inr x) f = (evs @ fst (f x), snd (f x))"
  by (simp add: bind_def split: prod.splits)

lemma bind_Inl: "bind (evs, Inl msg) f = (evs, Inl msg)"
  by (simp add: bind_def)

lemma snd_bind_Inr: "snd m = Inr x \<Longrightarrow> snd (bind m f) = snd (f x)"
  by (cases m) (simp add: bind_Inr)

lemma fst_bind: "fst (bind m f) = fst m @ (case snd m of Inl _ \<Rightarrow> [] | Inr x \<Rightarrow> fst (f x))"
  by (cases m) (auto simp: bind_def split: sum.splits prod.splits)

section \<open>The content truncator\<close>



section \<open>The prompt composer\<close>

text \<open>
  C5. When the prompt override is present and non-empty, \<open>buildPrompt\<close> returns exactly
  the override, whatever the other eight properties are: two calls with the same
  non-empty override give the same string.
\<close>

theorem buildPrompt_override:
  "x \<noteq> [] \<Longrightarrow>
     buildPrompt (Some x) fromSha toSha summaries community tone hashtags callToAction extra = x
     \<and> buildPrompt (Some x) fromSha toSha summaries community tone hashtags callToAction extra
       = buildPrompt (Some x) fromSha' toSha' summaries' community' tone' hashtags' callToAction' extra'"
  by (simp add: buildPrompt_def)

theorem buildPrompt_override_witness:
  "str ''X'' \<noteq> []
   \<and> buildPrompt (Some (str ''X'')) (str ''a1'') (str ''b2'') [str ''s''] (Some (str ''devs''))
        (Some (str ''bold'')) (Some [str ''#x'']) (Some (str ''Go'')) (Some (str ''more'')) = str ''X''
   \<and> buildPrompt (Some (str ''X'')) (str ''a1'') (str ''b2'') [str ''s''] (Some (str ''devs''))
        (Some (str ''bold'')) (Some [str ''#x'']) (Some (str ''Go'')) (Some (str ''more''))
       = buildPrompt (Some (str ''X'')) [] [] [] None None None None None"
  using buildPrompt_override [of "str ''X''" "str ''a1''" "str ''b2''" "[str ''s'']" "Some (str ''devs'')"
      "Some (str ''bold'')" "Some [str ''#x'']" "Some (str ''Go'')" "Some (str ''more'')"
      "[]" "[]" "[]" None None None None None]
  by (auto simp: str_def)

lemma promptParts_included:
  "join (str ''\<newline>\<newline>'') (promptParts f t cs com tn hs cta ex) =
   join (str ''\<newline>\<newline>'') (included (promptFragments f t cs com tn hs cta ex))"
proof -
  let ?sep = "str ''\<newline>\<newline>''"
  let ?pre = "[str ''You are a concise social media writer for X. Compose a single post (no thread) under 280 characters.'',
      str ''Summarize '' @ dec (length cs) @ str '' commit(s) between '' @ f
        @ str '' and '' @ t @ str '' with a focus on what users will notice.'',
      (if truthy com
       then str ''This message will share with the \"'' @ the com @ str ''\" community.''
       else str ''This message will post to the main timeline.'')]
     @ (if truthy tn then [str ''Adopt a '' @ the tn @ str '' tone.''] else [])
     @ (case hs of
          None \<Rightarrow> []
        | Some h \<Rightarrow> if h \<noteq> [] then [str ''Incorporate these hashtags: '' @ join (str '' '') h] else [])
     @ (if truthy cta then [str ''Finish with: '' @ the cta] else [])"
  let ?post = "(if truthy ex then [str ''Additional instructions: '' @ the ex] else [])
     @ [str ''Stay actionable, friendly, and avoid overly technical jargon.'']"
  let ?h = "str ''Commit context:''"
  let ?s = "join (str ''\<newline>\<newline>---\<newline>\<newline>'') cs"
  have parts: "promptParts f t cs com tn hs cta ex = ?pre @ [?h, ?s] @ ?post"
    by (simp add: promptParts_def)
  have incl: "included (promptFragments f t cs com tn hs cta ex) = ?pre @ [?h @ ?sep @ ?s] @ ?post"
    by (simp add: promptFragments_def included_def split: option.splits)
  show ?thesis
    unfolding parts incl by (rule join_glue)
qed

text \<open>
  C6. Without an override, the prompt is the included fragments joined by a blank line,
  in the fixed order a to i of \<open>promptFragments\<close>: the fixed instruction, the count and
  range, the destination, the tone if given, the hashtags if any, the call to action if
  given, the header \<open>Commit context:\<close> followed by the summaries joined with the marker
  line, the extra instructions if given, and the closing directive. Leaving an optional
  part out removes its fragment and moves no other: when the tone is absent the
  fragments are those for any tone with the tone's place left empty.
\<close>

theorem buildPrompt_fragments:
  "\<not> truthy override \<Longrightarrow>
     buildPrompt override f t cs com tn hs cta ex
       = join (str ''\<newline>\<newline>'') (included (promptFragments f t cs com tn hs cta ex))
     \<and> length (promptFragments f t cs com tn hs cta ex) = 9
     \<and> (\<not> truthy tn \<longrightarrow>
          promptFragments f t cs com tn hs cta ex = (promptFragments f t cs com tn' hs cta ex)[3 := None])"
  by (simp add: buildPrompt_def promptParts_included) (simp add: promptFragments_def)

theorem buildPrompt_fragments_witness:
  "buildPrompt None (str ''a1'') (str ''b2'') [str ''S1'', str ''S2''] None None None None None =
     str ''You are a concise social media writer for X. Compose a single post (no thread) under 280 characters.''
     @ str ''\<newline>\<newline>Summarize 2 commit(s) between a1 and b2 with a focus on what users will notice.''
     @ str ''\<newline>\<newline>This message will post to the main timeline.''
     @ str ''\<newline>\<newline>Commit context:\<newline>\<newline>S1\<newline>\<newline>---\<newline>\<newline>S2''
     @ str ''\<newline>\<newline>Stay actionable, friendly, and avoid overly technical jargon.''"
proof -
  have v: "join (str ''\<newline>\<newline>'')
        (included (promptFragments (str ''a1'') (str ''b2'') [str ''S1'', str ''S2''] None None None None None)) =
     str ''You are a concise social media writer for X. Compose a single post (no thread) under 280 characters.''
     @ str ''\<newline>\<newline>Summarize 2 commit(s) between a1 and b2 with a focus on what users will notice.''
     @ str ''\<newline>\<newline>This message will post to the main timeline.''
     @ str ''\<newline>\<newline>Commit context:\<newline>\<newline>S1\<newline>\<newline>---\<newline>\<newline>S2''
     @ str ''\<newline>\<newline>Stay actionable, friendly, and avoid overly technical jargon.''"
    by code_simp
  have absent: "\<not> truthy None" by simp
  from buildPrompt_fragments [OF absent, of "str ''a1''" "str ''b2''" "[str ''S1'', str ''S2'']" None None None None None]
  show ?thesis by (simp only: v)
qed

section \<open>Hashtag normalisation\<close>

lemma splitRuns_Nil: "splitRuns sep [] = [[]]"
  by (simp add: splitRuns.simps)

lemma splitRuns_sep: "sep c \<Longrightarrow> splitRuns sep (c # cs) = [] # splitRuns sep (dropWhile sep cs)"
  by (simp add: splitRuns.simps [of sep "c # cs"])

lemma splitRuns_nonsep:
  "\<not> sep c \<Longrightarrow> splitRuns sep (c # cs) = (c # hd (splitRuns sep cs)) # tl (splitRuns sep cs)"
  by (simp add: splitRuns.simps [of sep "c # cs"] splitRuns.simps [of sep cs])

lemma splitRuns_dropWhile:
  "filter (\<lambda>t. t \<noteq> []) (splitRuns sep (dropWhile sep s)) = filter (\<lambda>t. t \<noteq> []) (splitRuns sep s)"
  by (cases s) (simp_all add: splitRuns_sep)

lemma splitRuns_not_Nil: "splitRuns sep s \<noteq> []"
  by (simp add: splitRuns.simps [of sep s])

lemma splitEach_not_Nil: "splitEach sep s \<noteq> []"
  by (induction s) (auto split: list.splits)

lemma filter_hd_tl: "xs \<noteq> [] \<Longrightarrow> filter P xs = filter P [hd xs] @ filter P (tl xs)"
  by (cases xs) simp_all

lemma splitRuns_splitEach:
  "hd (splitRuns sep s) = hd (splitEach sep s)
   \<and> filter (\<lambda>t. t \<noteq> []) (tl (splitRuns sep s)) = filter (\<lambda>t. t \<noteq> []) (tl (splitEach sep s))"
proof (induction s)
  case Nil
  show ?case by (simp add: splitRuns_Nil)
next
  case (Cons c cs)
  have whole: "filter (\<lambda>t. t \<noteq> []) (splitRuns sep cs) = filter (\<lambda>t. t \<noteq> []) (splitEach sep cs)"
    using Cons.IH filter_hd_tl [OF splitRuns_not_Nil, of "\<lambda>t. t \<noteq> []" sep cs]
      filter_hd_tl [OF splitEach_not_Nil, of "\<lambda>t. t \<noteq> []" sep cs]
    by simp
  show ?case
  proof (cases "sep c")
    case True
    then show ?thesis
      by (simp add: splitRuns_sep splitRuns_dropWhile whole)
  next
    case False
    obtain t ts where e: "splitEach sep cs = t # ts"
      using splitEach_not_Nil [of sep cs] by (cases "splitEach sep cs") auto
    show ?thesis
      using False Cons.IH by (simp add: splitRuns_nonsep e)
  qed
qed

lemma splitRuns_tokens:
  "filter (\<lambda>t. t \<noteq> []) (splitRuns sep s) = filter (\<lambda>t. t \<noteq> []) (splitEach sep s)"
  using splitRuns_splitEach [of sep s] filter_hd_tl [OF splitRuns_not_Nil, of "\<lambda>t. t \<noteq> []" sep s]
    filter_hd_tl [OF splitEach_not_Nil, of "\<lambda>t. t \<noteq> []" sep s]
  by simp

lemma splitRuns_unfold_Nil:
  assumes "dropWhile (\<lambda>c. \<not> sep c) s = []"
  shows "splitRuns sep s = [takeWhile (\<lambda>c. \<not> sep c) s]"
  by (subst splitRuns.simps) (simp only: assms list.case)

lemma splitRuns_unfold_Cons:
  assumes "dropWhile (\<lambda>c. \<not> sep c) s = d # ds"
  shows "splitRuns sep s = takeWhile (\<lambda>c. \<not> sep c) s # splitRuns sep (dropWhile sep ds)"
  by (subst splitRuns.simps) (simp only: assms list.case)

lemma splitRuns_no_sep: "\<forall>t \<in> set (splitRuns sep s). \<forall>c \<in> set t. \<not> sep c"
proof (induction sep s rule: splitRuns.induct)
  case (1 sep s)
  have first: "\<forall>c \<in> set (takeWhile (\<lambda>c. \<not> sep c) s). \<not> sep c"
    by (auto dest: set_takeWhileD)
  show ?case
  proof (cases "dropWhile (\<lambda>c. \<not> sep c) s")
    case Nil
    show ?thesis
      unfolding splitRuns_unfold_Nil [OF Nil] using first by simp
  next
    case (Cons d ds)
    have rest: "\<forall>t \<in> set (splitRuns sep (dropWhile sep ds)). \<forall>c \<in> set t. \<not> sep c"
      by (rule "1.IH" [OF Cons])
    have eq: "splitRuns sep s = takeWhile (\<lambda>c. \<not> sep c) s # splitRuns sep (dropWhile sep ds)"
      by (rule splitRuns_unfold_Cons [OF Cons])
    have "\<forall>t \<in> set (takeWhile (\<lambda>c. \<not> sep c) s # splitRuns sep (dropWhile sep ds)). \<forall>c \<in> set t. \<not> sep c"
      using first rest by (simp only: list.set ball_simps) 
    then show ?thesis
      by (simp only: eq)
  qed
qed

lemma dropWhile_none: "\<forall>c \<in> set t. \<not> P c \<Longrightarrow> dropWhile P t = t"
  by (cases t) simp_all

lemma trim_no_white: "\<forall>c \<in> set t. \<not> isWhiteSpace c \<Longrightarrow> trim t = t"
  by (simp add: trim_def dropWhile_none)

lemma map_trim_splitRuns: "map trim (splitRuns isSeparator s) = splitRuns isSeparator s"
proof -
  have "\<forall>t \<in> set (splitRuns isSeparator s). trim t = t"
    using splitRuns_no_sep [of isSeparator s] by (auto intro!: trim_no_white simp: isSeparator_def)
  then show ?thesis by (simp add: map_idI)
qed

lemma parseHashtags_tokens:
  "parseHashtags s = map (\<lambda>v. if startsWithHash v then v else str ''#'' @ v) (specHashtagTokens s)"
  by (simp add: parseHashtags_def specHashtagTokens_def map_trim_splitRuns splitRuns_tokens)

text \<open>
  C7 (as amended). The hashtag tokens are the input split on commas and white space with
  the empty tokens dropped, and every resulting token starts with \<open>#\<close>: a \<open>#\<close> is
  put in front of a token exactly when the token does not start with one already, and a
  token that starts with \<open>#\<close> is kept as it is. In particular
  \<open>alpha, #beta gamma\<close> gives \<open>#alpha\<close>, \<open>#beta\<close>, \<open>#gamma\<close>.
\<close>

theorem parseHashtags_tokens_hash:
  "parseHashtags s = map (\<lambda>v. if startsWithHash v then v else 0x23 # v) (specHashtagTokens s)
   \<and> (\<forall>t \<in> set (parseHashtags s). startsWithHash t)
   \<and> parseHashtags (str ''alpha, #beta gamma'') = [str ''#alpha'', str ''#beta'', str ''#gamma'']"
proof -
  have a: "parseHashtags s = map (\<lambda>v. if startsWithHash v then v else 0x23 # v) (specHashtagTokens s)"
    by (simp add: parseHashtags_tokens str_def)
  have b: "\<forall>t \<in> set (parseHashtags s). startsWithHash t"
    unfolding a by (auto simp: startsWithHash_def)
  have c: "parseHashtags (str ''alpha, #beta gamma'') = [str ''#alpha'', str ''#beta'', str ''#gamma'']"
    by code_simp
  from a b c show ?thesis by (intro conjI)
qed

theorem parseHashtags_tokens_hash_witness:
  "specHashtagTokens (str ''ship it,#now'') = [str ''ship'', str ''it'', str ''#now'']
   \<and> parseHashtags (str ''ship it,#now'') = [str ''#ship'', str ''#it'', str ''#now'']
   \<and> startsWithHash (str ''#ship'') \<and> startsWithHash (str ''#it'') \<and> startsWithHash (str ''#now'')"
proof -
  have tokens: "specHashtagTokens (str ''ship it,#now'') = [str ''ship'', str ''it'', str ''#now'']"
    by code_simp
  have hashed: "map (\<lambda>v. if startsWithHash v then v else 0x23 # v) [str ''ship'', str ''it'', str ''#now'']
      = [str ''#ship'', str ''#it'', str ''#now'']"
    by code_simp
  note spec = parseHashtags_tokens_hash [of "str ''ship it,#now''"]
  from spec have result: "parseHashtags (str ''ship it,#now'') = [str ''#ship'', str ''#it'', str ''#now'']"
    by (simp only: tokens hashed)
  from spec have "\<forall>t \<in> set (parseHashtags (str ''ship it,#now'')). startsWithHash t"
    by blast
  then have "startsWithHash (str ''#ship'') \<and> startsWithHash (str ''#it'') \<and> startsWithHash (str ''#now'')"
    by (simp only: result list.set ball_simps simp_thms)
  with tokens result show ?thesis
    by (intro conjI) blast+
qed

text \<open>
  The claim as it was stated fails: the token \<open>##x\<close> is kept as it is, and carries the
  prefix twice.
\<close>

theorem parseHashtags_double_hash:
  "str ''##x'' \<in> set (parseHashtags (str ''##x'')) \<and> startsWithHash (tl (str ''##x''))"
  by code_simp

section \<open>The commit summary builder\<close>

lemma readCommitTitle_Inr:
  "sh (str ''git show -s --format=%s '' @ commit) = Inr out \<Longrightarrow>
     snd (readCommitTitle sh commit) = Inr (trim out)"
  by (simp add: readCommitTitle_def runCommand_def bind_Inr ret_def)

lemma readCommitBody_Inr:
  "sh (str ''git show -s --format=%b '' @ commit) = Inr out \<Longrightarrow>
     snd (readCommitBody sh commit) = Inr (trim out)"
  by (simp add: readCommitBody_def runCommand_def bind_Inr ret_def)

text \<open>
  C2. When the three reads of a commit succeed, its summary is the sections joined by a
  blank line, in the order identifier line, title line, body, diff preview, and it
  starts with the identifier line. The body section is there only if the body read is
  not empty after trimming, and the diff preview only if the diff, once truncated, is
  not empty after trimming.
\<close>

theorem buildCommitSummary_sections:
  assumes "sh (str ''git show -s --format=%s '' @ commit) = Inr rawTitle"
    and "sh (str ''git show -s --format=%b '' @ commit) = Inr rawBody"
    and "snd (readCommitDiff sh commit paths) = Inr diff"
  shows "snd (buildCommitSummary sh commit limit paths) =
           Inr (join (str ''\<newline>\<newline>'')
                 ([str ''Commit: '' @ commit, str ''Title: '' @ trim rawTitle]
                  @ (if trim rawBody = [] then [] else [str ''Body:\<newline>'' @ trim rawBody])
                  @ (if trim (text' (truncateContent diff limit)) = [] then []
                     else [str ''Diff preview:\<newline>'' @ text' (truncateContent diff limit)])))
         \<and> (\<exists>rest. snd (buildCommitSummary sh commit limit paths)
               = Inr (str ''Commit: '' @ commit @ rest))"
proof -
  let ?sections = "summarySections commit (trim rawTitle) (trim rawBody) (truncateContent diff limit)"
  have out: "snd (buildCommitSummary sh commit limit paths) = Inr (join (str ''\<newline>\<newline>'') ?sections)"
    unfolding buildCommitSummary_def
    by (simp add: snd_bind_Inr [OF readCommitTitle_Inr [of sh commit rawTitle, OF assms(1)]]
        snd_bind_Inr [OF readCommitBody_Inr [of sh commit rawBody, OF assms(2)]]
        snd_bind_Inr [OF assms(3)] ret_def)
  have sections: "?sections =
      [str ''Commit: '' @ commit, str ''Title: '' @ trim rawTitle]
      @ (if trim rawBody = [] then [] else [str ''Body:\<newline>'' @ trim rawBody])
      @ (if trim (text' (truncateContent diff limit)) = [] then []
         else [str ''Diff preview:\<newline>'' @ text' (truncateContent diff limit)])"
    by (simp add: summarySections_def)
  have "\<exists>rest. join (str ''\<newline>\<newline>'') ?sections = (str ''Commit: '' @ commit) @ rest"
    unfolding summarySections_def by (simp only: append_Cons join_prefix)
  then show ?thesis
    using out sections by auto
qed

theorem buildCommitSummary_sections_witness:
  "snd (buildCommitSummary (demoShell []) (str ''b2'') (Some 2) []) =
     Inr (str ''Commit: b2\<newline>\<newline>Title: Fix login\<newline>\<newline>Diff preview:\<newline>+o\<newline>\<newline>[Diff truncated to the first 2 characters]'')"
proof -
  have title: "demoShell [] (str ''git show -s --format=%s '' @ str ''b2'') = Inr (str ''Fix login\<newline>'')"
    by code_simp
  have body: "demoShell [] (str ''git show -s --format=%b '' @ str ''b2'') = Inr (str ''\<newline>'')"
    by code_simp
  have diff: "snd (readCommitDiff (demoShell []) (str ''b2'') []) = Inr (str ''+ok\<newline>'')"
    by code_simp
  have v: "join (str ''\<newline>\<newline>'')
        ([str ''Commit: '' @ str ''b2'', str ''Title: '' @ trim (str ''Fix login\<newline>'')]
         @ (if trim (str ''\<newline>'') = [] then [] else [str ''Body:\<newline>'' @ trim (str ''\<newline>'')])
         @ (if trim (text' (truncateContent (str ''+ok\<newline>'') (Some 2))) = [] then []
            else [str ''Diff preview:\<newline>'' @ text' (truncateContent (str ''+ok\<newline>'') (Some 2))]))
      = str ''Commit: b2\<newline>\<newline>Title: Fix login\<newline>\<newline>Diff preview:\<newline>+o\<newline>\<newline>[Diff truncated to the first 2 characters]''"
    by code_simp
  from buildCommitSummary_sections [OF title body diff, of "Some 2"]
  show ?thesis by (simp only: v)
qed

section \<open>The commit range collector\<close>





section \<open>The short circuit on an empty commit range\<close>

lemma readConfig_no_events: "fst (readConfig w) = []"
  by (simp add: readConfig_def fst_bind lift_def throw_def ret_def Let_def split: sum.splits option.splits)

lemma readConfig_community:
  "readConfig w = (e, Inr cfg) \<Longrightarrow> communityInput cfg = trim (input_community w)"
  by (auto simp: readConfig_def bind_def lift_def throw_def ret_def Let_def
      split: sum.splits option.splits if_splits)

lemma resolveCommit_events: "\<forall>ev \<in> set (fst (resolveCommit sh r)). \<not> isFetch ev \<and> \<not> isSetFailed ev"
  by (simp add: resolveCommit_def runCommand_def split: sum.splits)

lemma listCommitsInRange_events:
  "\<forall>ev \<in> set (fst (listCommitsInRange sh a b)). \<not> isFetch ev \<and> \<not> isSetFailed ev"
  by (simp add: listCommitsInRange_def runCommand_def Let_def split: sum.splits)

lemma collectCommits_events:
  "\<forall>ev \<in> set (fst (collectCommits sh r t inc)). \<not> isFetch ev \<and> \<not> isSetFailed ev"
  using resolveCommit_events listCommitsInRange_events
  by (auto simp: collectCommits_def fst_bind ret_def split: sum.splits)

text \<open>
  C4 (as amended). Whenever the configuration is read and the collected commit list,
  after the start commit is considered, is empty, the run ends without an error: after
  the shell commands of the collection it emits the notice, sets the outputs
  \<open>generated-post\<close>, \<open>post-id\<close> and \<open>post-url\<close> to the empty string and
  \<open>community-id\<close> to the trimmed community input, and nothing else; no request is
  fetched, so neither the completion nor the publish service is invoked, and nothing is
  reported as failed.
\<close>

theorem run_empty_range:
  assumes "readConfig w = (e0, Inr cfg)"
    and "collectCommits (execSync w) (startRef cfg) (endRefInput cfg) (includeStartCommit cfg)
           = (e1, Inr (a, b, []))"
  shows "run w = e1 @ [Notice (str ''No commits found between '' @ a @ str '' and '' @ b
                          @ str ''. Skipping X post.''),
                       SetOutput (str ''generated-post'') [],
                       SetOutput (str ''post-id'') [],
                       SetOutput (str ''post-url'') [],
                       SetOutput (str ''community-id'') (trim (input_community w))]
         \<and> (\<forall>ev \<in> set (run w). \<not> isFetch ev \<and> \<not> isSetFailed ev)"
proof -
  have e0: "e0 = []"
    using readConfig_no_events [of w] assms(1) by simp
  have com: "communityInput cfg = trim (input_community w)"
    by (rule readConfig_community [OF assms(1)])
  have r: "run w = e1 @ skipEvents a b (trim (input_community w))"
    by (simp add: run_def runBody_def assms e0 bind_Inr emit_def com)
  have "\<forall>ev \<in> set e1. \<not> isFetch ev \<and> \<not> isSetFailed ev"
    using collectCommits_events [of "execSync w" "startRef cfg" "endRefInput cfg" "includeStartCommit cfg"]
    by (simp add: assms(2))
  then show ?thesis
    unfolding r by (simp add: skipEvents_def)
qed

theorem run_empty_range_witness:
  "run (demoWorld [] (str ''0.5'') (str ''devs'') []) =
     [Debug (str ''Executing: git rev-parse a1''), ExecSync (str ''git rev-parse a1''),
      Debug (str ''Executing: git rev-parse HEAD''), ExecSync (str ''git rev-parse HEAD''),
      Debug (str ''Executing: git rev-list --reverse a1..b2''),
      ExecSync (str ''git rev-list --reverse a1..b2''),
      Notice (str ''No commits found between a1 and b2. Skipping X post.''),
      SetOutput (str ''generated-post'') [],
      SetOutput (str ''post-id'') [],
      SetOutput (str ''post-url'') [],
      SetOutput (str ''community-id'') (str ''devs'')]"
proof -
  let ?w = "demoWorld [] (str ''0.5'') (str ''devs'') []"
  let ?e1 = "[Debug (str ''Executing: git rev-parse a1''), ExecSync (str ''git rev-parse a1''),
      Debug (str ''Executing: git rev-parse HEAD''), ExecSync (str ''git rev-parse HEAD''),
      Debug (str ''Executing: git rev-list --reverse a1..b2''),
      ExecSync (str ''git rev-list --reverse a1..b2'')]"
  have c: "readConfig ?w = ([], Inr (demoConfig (str ''devs'')))"
    by code_simp
  have r: "collectCommits (execSync ?w) (startRef (demoConfig (str ''devs'')))
        (endRefInput (demoConfig (str ''devs''))) (includeStartCommit (demoConfig (str ''devs'')))
      = (?e1, Inr (str ''a1'', str ''b2'', []))"
    by code_simp
  have v: "?e1 @ [Notice (str ''No commits found between '' @ str ''a1'' @ str '' and '' @ str ''b2''
                          @ str ''. Skipping X post.''),
                       SetOutput (str ''generated-post'') [],
                       SetOutput (str ''post-id'') [],
                       SetOutput (str ''post-url'') [],
                       SetOutput (str ''community-id'') (trim (input_community ?w))]
     = [Debug (str ''Executing: git rev-parse a1''), ExecSync (str ''git rev-parse a1''),
      Debug (str ''Executing: git rev-parse HEAD''), ExecSync (str ''git rev-parse HEAD''),
      Debug (str ''Executing: git rev-list --reverse a1..b2''),
      ExecSync (str ''git rev-list --reverse a1..b2''),
      Notice (str ''No commits found between a1 and b2. Skipping X post.''),
      SetOutput (str ''generated-post'') [],
      SetOutput (str ''post-id'') [],
      SetOutput (str ''post-url'') [],
      SetOutput (str ''community-id'') (str ''devs'')]"
    by code_simp
  from run_empty_range [OF c r] show ?thesis
    by (simp only: v)
qed

text \<open>
  The claim as it was stated fails: with a community configured, the \<open>community-id\<close>
  output set on an empty range is not empty.
\<close>

theorem run_empty_range_community_output:
  "snd (collectCommits (execSync (demoWorld [] (str ''0.5'') (str ''devs'') [])) (str ''a1'') [] False)
     = Inr (str ''a1'', str ''b2'', [])
   \<and> SetOutput (str ''community-id'') (str ''devs'') \<in> set (run (demoWorld [] (str ''0.5'') (str ''devs'') []))
   \<and> str ''devs'' \<noteq> []"
  by code_simp

section \<open>Validation of the temperature\<close>

lemma temperature_in_range:
  "(t \<noteq> NaN \<and> \<not> numLess t (Finite 0) \<and> \<not> numLess (Finite 2) t)
     \<longleftrightarrow> (\<exists>r. t = Finite r \<and> 0 \<le> r \<and> r \<le> 2)"
  by (cases t) auto

lemma readConfig_temperature:
  assumes "input_from w = Inr f"
    and "input_include_start_commit w = Inr inc"
    and "truthy (env_GITHUB_TOKEN w)"
    and "truthy (env_X_BEARER_TOKEN w)"
    and "parseInt (orDefault (input_max_diff_chars w) (str ''2000'')) = Some d" and "0 \<le> d"
    and "parseInt (orDefault (input_max_output_tokens w) (str ''400'')) = Some m" and "0 < m"
  shows "readConfig w =
     (let t = parseFloat (orDefault (input_temperature w) (str ''0.2'')) in
      if t = NaN \<or> numLess t (Finite 0) \<or> numLess (Finite 2) t
      then ([], Inl (temperatureError (orDefault (input_temperature w) (str ''0.2''))))
      else ([], Inr \<lparr>startRef = trim f,
                     endRefInput = trim (input_to w),
                     includeStartCommit = inc,
                     communityInput = trim (input_community w),
                     diffPaths = filter (\<lambda>v. v \<noteq> []) (map trim (input_paths w)),
                     githubToken = the (env_GITHUB_TOKEN w),
                     xBearerToken = the (env_X_BEARER_TOKEN w),
                     maxDiffChars = d,
                     maxOutputTokens = m,
                     temperature = t\<rparr>))"
  using assms by (simp add: readConfig_def bind_def lift_def throw_def ret_def Let_def)

text \<open>
  C8. Once the inputs are read, both credentials are present and the two integer limits
  are valid, validation succeeds exactly when \<open>Number.parseFloat\<close> reads the temperature
  string (the input, or \<open>0.2\<close> when the input is empty) as a number in the closed
  interval from 0 to 2. Otherwise the run does nothing but report one failure, whose
  message names \<open>temperature\<close> and quotes the string as it was given; no request is
  fetched. The string \<open>3\<close> is read as the number 3 and so rejected.
\<close>

theorem temperature_validation:
  assumes "input_from w = Inr f"
    and "input_include_start_commit w = Inr inc"
    and "truthy (env_GITHUB_TOKEN w)"
    and "truthy (env_X_BEARER_TOKEN w)"
    and "parseInt (orDefault (input_max_diff_chars w) (str ''2000'')) = Some d" and "0 \<le> d"
    and "parseInt (orDefault (input_max_output_tokens w) (str ''400'')) = Some m" and "0 < m"
  shows "((\<exists>cfg. readConfig w = ([], Inr cfg)) \<longleftrightarrow>
            (\<exists>r. parseFloat (orDefault (input_temperature w) (str ''0.2'')) = Finite r \<and> 0 \<le> r \<and> r \<le> 2))
         \<and> (\<not> (\<exists>r. parseFloat (orDefault (input_temperature w) (str ''0.2'')) = Finite r \<and> 0 \<le> r \<and> r \<le> 2)
              \<longrightarrow> run w = [SetFailed (str ''\"temperature\" must be a number between 0 and 2. Received \"''
                                         @ orDefault (input_temperature w) (str ''0.2'') @ str ''\".'')])
         \<and> parseFloat (str ''3'') = Finite 3"
proof -
  let ?t = "parseFloat (orDefault (input_temperature w) (str ''0.2''))"
  note cfg = readConfig_temperature [OF assms]
  have three: "parseFloat (str ''3'') = Finite 3"
    by code_simp
  show ?thesis
  proof (cases "\<exists>r. ?t = Finite r \<and> 0 \<le> r \<and> r \<le> 2")
    case True
    then have "\<not> (?t = NaN \<or> numLess ?t (Finite 0) \<or> numLess (Finite 2) ?t)"
      using temperature_in_range [of ?t] by blast
    then have "\<exists>c. readConfig w = ([], Inr c)"
      unfolding cfg by (simp add: Let_def)
    with True three show ?thesis by blast
  next
    case False
    then have bad: "?t = NaN \<or> numLess ?t (Finite 0) \<or> numLess (Finite 2) ?t"
      using temperature_in_range [of ?t] by blast
    then have r: "readConfig w = ([], Inl (temperatureError (orDefault (input_temperature w) (str ''0.2''))))"
      unfolding cfg by (simp add: Let_def)
    have "run w = [SetFailed (temperatureError (orDefault (input_temperature w) (str ''0.2'')))]"
      by (simp add: run_def runBody_def r bind_Inl)
    with False r three show ?thesis
      by (simp add: temperatureError_def)
  qed
qed

theorem temperature_validation_witness:
  "run (demoWorld [] (str ''3'') [] []) =
     [SetFailed (str ''\"temperature\" must be a number between 0 and 2. Received \"3\".'')]
   \<and> (\<exists>cfg. readConfig (demoWorld [] (str ''2'') [] []) = ([], Inr cfg))"
proof -
  have f: "input_from (demoWorld [] t [] []) = Inr (str ''a1'')"
    and i: "input_include_start_commit (demoWorld [] t [] []) = Inr False"
    and g: "truthy (env_GITHUB_TOKEN (demoWorld [] t [] []))"
    and x: "truthy (env_X_BEARER_TOKEN (demoWorld [] t [] []))"
    and d: "parseInt (orDefault (input_max_diff_chars (demoWorld [] t [] [])) (str ''2000'')) = Some 2000"
    and m: "parseInt (orDefault (input_max_output_tokens (demoWorld [] t [] [])) (str ''400'')) = Some 400"
    for t
    by (simp_all add: demoWorld_def) code_simp+
  have three: "parseFloat (orDefault (input_temperature (demoWorld [] (str ''3'') [] [])) (str ''0.2'')) = Finite 3"
    by code_simp
  have two: "parseFloat (orDefault (input_temperature (demoWorld [] (str ''2'') [] [])) (str ''0.2'')) = Finite 2"
    by code_simp
  have msg: "str ''\"temperature\" must be a number between 0 and 2. Received \"''
        @ orDefault (input_temperature (demoWorld [] (str ''3'') [] [])) (str ''0.2'') @ str ''\".''
      = str ''\"temperature\" must be a number between 0 and 2. Received \"3\".''"
    by code_simp
  from temperature_validation [OF f i g x d _ m, of "str ''3''"]
  have rejected: "run (demoWorld [] (str ''3'') [] []) =
     [SetFailed (str ''\"temperature\" must be a number between 0 and 2. Received \"3\".'')]"
    by (simp add: three msg)
  from temperature_validation [OF f i g x d _ m, of "str ''2''"]
  have accepted: "\<exists>cfg. readConfig (demoWorld [] (str ''2'') [] []) = ([], Inr cfg)"
    by (simp add: two)
  from rejected accepted show ?thesis by (intro conjI)
qed

section \<open>From the completion to the publish request\<close>

lemma callModel_content:
  assumes "service \<lparr>url = MODELS_ENDPOINT, authorization = str ''Bearer '' @ token,
                     payload = ChatBody model maxTokens temp
                                 [(str ''system'', systemPrompt), (str ''user'', prompt)]\<rparr> = Inr response"
    and "ok response"
    and "bodyJson response = Inr d"
    and "choices d = Some (c # cs)"
    and "message c = Some m"
    and "content m = Some s"
    and "s \<noteq> []"
  shows "callModel service token model temp maxTokens systemPrompt prompt =
           ([Fetch \<lparr>url = MODELS_ENDPOINT, authorization = str ''Bearer '' @ token,
                     payload = ChatBody model maxTokens temp
                                 [(str ''system'', systemPrompt), (str ''user'', prompt)]\<rparr>],
            Inr (trim s))"
  using assms by (simp add: callModel_def fetch_def bind_Inr lift_def ret_def)

lemma postToX_request:
  assumes "truthy community \<longrightarrow> enc (the community) = Inr encoded"
  shows "\<exists>rest. fst (postToX service enc post token community) =
           Fetch \<lparr>url = (if truthy community
                          then str ''https://api.twitter.com/2/communities/'' @ encoded @ str ''/posts''
                          else str ''https://api.twitter.com/2/tweets''),
                   authorization = str ''Bearer '' @ token,
                   payload = PostBody post\<rparr> # rest"
  using assms by (simp add: postToX_def fetch_def fst_bind bind_Inr lift_def ret_def)


text \<open>
  C9. When the completion service answers successfully and the content of its first
  choice is a non-empty string, the generated post is that content with the surrounding
  white space trimmed, and exactly this string is the text of the request sent to the
  publish service next, whatever its length: nothing between the two requests shortens
  or otherwise changes it. (A community identifier, if there is one, must be accepted
  by \<open>encodeURIComponent\<close> for the request to be sent.)
\<close>

theorem generated_post_published:
  assumes "completionService w
             \<lparr>url = MODELS_ENDPOINT,
              authorization = str ''Bearer '' @ githubToken cfg,
              payload = ChatBody (orDefault (input_model w) (str ''openai/gpt-4o-mini''))
                          (maxOutputTokens cfg) (temperature cfg)
                          [(str ''system'', orDefault (input_system_prompt w) DEFAULT_SYSTEM_PROMPT),
                           (str ''user'', runPrompt w cfg a b summaries)]\<rparr> = Inr response"
    and "ok response"
    and "bodyJson response = Inr d"
    and "choices d = Some (c # cs)"
    and "message c = Some m"
    and "content m = Some s"
    and "s \<noteq> []"
    and "communityInput cfg \<noteq> [] \<longrightarrow> encodeURIComponent w (communityInput cfg) = Inr encoded"
  shows "snd (callModel (completionService w) (githubToken cfg)
                (orDefault (input_model w) (str ''openai/gpt-4o-mini'')) (temperature cfg)
                (maxOutputTokens cfg) (orDefault (input_system_prompt w) DEFAULT_SYSTEM_PROMPT)
                (runPrompt w cfg a b summaries)) = Inr (trim s)
         \<and> (\<exists>rest.
               fst (generateAndPublish w cfg a b summaries) =
                 [Info (str ''Requesting post copy from model \"''
                          @ orDefault (input_model w) (str ''openai/gpt-4o-mini'') @ str ''\"...''),
                  Fetch \<lparr>url = MODELS_ENDPOINT,
                          authorization = str ''Bearer '' @ githubToken cfg,
                          payload = ChatBody (orDefault (input_model w) (str ''openai/gpt-4o-mini''))
                                      (maxOutputTokens cfg) (temperature cfg)
                                      [(str ''system'', orDefault (input_system_prompt w) DEFAULT_SYSTEM_PROMPT),
                                       (str ''user'', runPrompt w cfg a b summaries)]\<rparr>,
                  Info (str ''Publishing generated post to X...''),
                  Fetch \<lparr>url = (if communityInput cfg \<noteq> []
                                 then str ''https://api.twitter.com/2/communities/'' @ encoded
                                        @ str ''/posts''
                                 else str ''https://api.twitter.com/2/tweets''),
                          authorization = str ''Bearer '' @ xBearerToken cfg,
                          payload = PostBody (trim s)\<rparr>] @ rest)"
proof -
  have call: "callModel (completionService w) (githubToken cfg)
                (orDefault (input_model w) (str ''openai/gpt-4o-mini'')) (temperature cfg)
                (maxOutputTokens cfg) (orDefault (input_system_prompt w) DEFAULT_SYSTEM_PROMPT)
                (runPrompt w cfg a b summaries) =
      ([Fetch \<lparr>url = MODELS_ENDPOINT,
              authorization = str ''Bearer '' @ githubToken cfg,
              payload = ChatBody (orDefault (input_model w) (str ''openai/gpt-4o-mini''))
                          (maxOutputTokens cfg) (temperature cfg)
                          [(str ''system'', orDefault (input_system_prompt w) DEFAULT_SYSTEM_PROMPT),
                           (str ''user'', runPrompt w cfg a b summaries)]\<rparr>], Inr (trim s))"
    using assms(1-7) by (rule callModel_content)
  let ?community = "if communityInput cfg \<noteq> [] then Some (communityInput cfg) else None"
  have enc: "truthy ?community \<longrightarrow> encodeURIComponent w (the ?community) = Inr encoded"
    using assms(8) by simp
  from postToX_request [of ?community "encodeURIComponent w" encoded "publishService w" "trim s"
      "xBearerToken cfg", OF enc]
  obtain rest where post: "fst (postToX (publishService w) (encodeURIComponent w) (trim s) (xBearerToken cfg) ?community)
      = Fetch \<lparr>url = (if truthy ?community
                          then str ''https://api.twitter.com/2/communities/'' @ encoded @ str ''/posts''
                          else str ''https://api.twitter.com/2/tweets''),
                   authorization = str ''Bearer '' @ xBearerToken cfg,
                   payload = PostBody (trim s)\<rparr> # rest"
    by blast
  have "\<exists>rest'. fst (generateAndPublish w cfg a b summaries) =
      [Info (str ''Requesting post copy from model \"'' @ orDefault (input_model w) (str ''openai/gpt-4o-mini'') @ str ''\"...''),
       Fetch \<lparr>url = MODELS_ENDPOINT,
              authorization = str ''Bearer '' @ githubToken cfg,
              payload = ChatBody (orDefault (input_model w) (str ''openai/gpt-4o-mini''))
                          (maxOutputTokens cfg) (temperature cfg)
                          [(str ''system'', orDefault (input_system_prompt w) DEFAULT_SYSTEM_PROMPT),
                           (str ''user'', runPrompt w cfg a b summaries)]\<rparr>,
       Info (str ''Publishing generated post to X...''),
       Fetch \<lparr>url = (if communityInput cfg \<noteq> []
                                         then str ''https://api.twitter.com/2/communities/'' @ encoded
                                                @ str ''/posts''
                                         else str ''https://api.twitter.com/2/tweets''),
                                  authorization = str ''Bearer '' @ xBearerToken cfg,
                                  payload = PostBody (trim s)\<rparr>] @ rest'"
    unfolding generateAndPublish_def Let_def
    by (simp add: fst_bind emit_def call post)
  then show ?thesis
    using call by simp
qed

theorem generated_post_published_witness:
  "280 < length (trim (str ''  '' @ replicate 300 0x61 @ str '' ''))
   \<and> (\<exists>rest.
        fst (generateAndPublish
               (demoWorld (str ''b2\<newline>'') (str ''0.5'') [] (str ''  '' @ replicate 300 0x61 @ str '' ''))
               (demoConfig []) (str ''a1'') (str ''b2'') [str ''S'']) =
          [Info (str ''Requesting post copy from model \"openai/gpt-4o-mini\"...''),
           Fetch \<lparr>url = MODELS_ENDPOINT,
                   authorization = str ''Bearer ghs'',
                   payload = ChatBody (str ''openai/gpt-4o-mini'') 400 (Finite (1 / 2))
                               [(str ''system'', DEFAULT_SYSTEM_PROMPT),
                                (str ''user'',
                                 runPrompt (demoWorld (str ''b2\<newline>'') (str ''0.5'') []
                                              (str ''  '' @ replicate 300 0x61 @ str '' ''))
                                   (demoConfig []) (str ''a1'') (str ''b2'') [str ''S''])]\<rparr>,
           Info (str ''Publishing generated post to X...''),
           Fetch \<lparr>url = str ''https://api.twitter.com/2/tweets'',
                   authorization = str ''Bearer xbt'',
                   payload = PostBody (trim (str ''  '' @ replicate 300 0x61 @ str '' ''))\<rparr>] @ rest)"
proof -
  let ?reply = "str ''  '' @ replicate 300 0x61 @ str '' ''"
  let ?w = "demoWorld (str ''b2\<newline>'') (str ''0.5'') [] ?reply"
  let ?msg = "\<lparr>content = Some ?reply\<rparr>"
  let ?choice = "\<lparr>message = Some ?msg\<rparr>"
  let ?data = "\<lparr>choices = Some [?choice]\<rparr>"
  let ?response = "\<lparr>ok = True, status = 200, statusText = str ''OK'', bodyText = Inr [],
                    bodyJson = Inr ?data\<rparr>"
  have long: "280 < length (trim ?reply)"
    by code_simp
  have service: "completionService ?w req = Inr ?response" for req
    by (simp add: demoWorld_def demoCompletion_def)
  have nonempty: "?reply \<noteq> []"
    by (simp add: str_def)
  have nocommunity: "communityInput (demoConfig []) \<noteq> [] \<longrightarrow>
      encodeURIComponent ?w (communityInput (demoConfig [])) = Inr []"
    by (simp add: demoConfig_def)
  have fields: "orDefault (input_model ?w) (str ''openai/gpt-4o-mini'') = str ''openai/gpt-4o-mini''"
    "orDefault (input_system_prompt ?w) DEFAULT_SYSTEM_PROMPT = DEFAULT_SYSTEM_PROMPT"
    "maxOutputTokens (demoConfig []) = 400" "temperature (demoConfig []) = Finite (1 / 2)"
    "communityInput (demoConfig []) = []"
    "str ''Bearer '' @ githubToken (demoConfig []) = str ''Bearer ghs''"
    "str ''Bearer '' @ xBearerToken (demoConfig []) = str ''Bearer xbt''"
    "str ''Requesting post copy from model \"'' @ str ''openai/gpt-4o-mini'' @ str ''\"...''
       = str ''Requesting post copy from model \"openai/gpt-4o-mini\"...''"
    by (simp_all add: demoWorld_def demoConfig_def orDefault_def str_def)
  from generated_post_published [of ?w "demoConfig []" "str ''a1''" "str ''b2''" "[str ''S'']"
      ?response ?data ?choice "[]" ?msg ?reply "[]", OF service _ _ _ _ _ nonempty nocommunity]
  have "\<exists>rest.
        fst (generateAndPublish ?w (demoConfig []) (str ''a1'') (str ''b2'') [str ''S'']) =
          [Info (str ''Requesting post copy from model \"openai/gpt-4o-mini\"...''),
           Fetch \<lparr>url = MODELS_ENDPOINT,
                   authorization = str ''Bearer ghs'',
                   payload = ChatBody (str ''openai/gpt-4o-mini'') 400 (Finite (1 / 2))
                               [(str ''system'', DEFAULT_SYSTEM_PROMPT),
                                (str ''user'', runPrompt ?w (demoConfig []) (str ''a1'') (str ''b2'') [str ''S''])]\<rparr>,
           Info (str ''Publishing generated post to X...''),
           Fetch \<lparr>url = str ''https://api.twitter.com/2/tweets'',
                   authorization = str ''Bearer xbt'',
                   payload = PostBody (trim ?reply)\<rparr>] @ rest"
    by (simp add: fields)
  with long show ?thesis by (intro conjI)
qed

section \<open>A blank community\<close>

lemma trim_Nil: "trim [] = []"
  by (simp add: trim_def)

lemma readConfig_blank_community:
  "trim c = [] \<Longrightarrow> readConfig (w\<lparr>input_community := c\<rparr>) = readConfig (w\<lparr>input_community := []\<rparr>)"
  by (simp add: readConfig_def trim_Nil Let_def cong: if_cong option.case_cong)

lemma generateAndPublish_community:
  "generateAndPublish (w\<lparr>input_community := c\<rparr>) cfg a b summaries = generateAndPublish w cfg a b summaries"
  by (simp add: generateAndPublish_def runPrompt_def)

lemma runBody_community:
  "runBody (w\<lparr>input_community := c\<rparr>) =
     bind (readConfig (w\<lparr>input_community := c\<rparr>)) (\<lambda>cfg.
     bind (collectCommits (execSync w) (startRef cfg) (endRefInput cfg) (includeStartCommit cfg))
       (\<lambda>(fromSha, toSha, order).
       if order = [] then emit (skipEvents fromSha toSha (communityInput cfg))
       else
         bind (collectSummaries (execSync w) (maxDiffChars cfg) (diffPaths cfg) (length order) 0 order)
           (\<lambda>summaries. generateAndPublish w cfg fromSha toSha summaries)))"
  by (simp add: runBody_def generateAndPublish_community cong: if_cong)

lemma postToX_main_timeline:
  "fst (postToX service enc post token None) =
     [Fetch \<lparr>url = str ''https://api.twitter.com/2/tweets'',
             authorization = str ''Bearer '' @ token,
             payload = PostBody post\<rparr>]"
  by (auto simp: postToX_def fetch_def fst_bind ret_def lift_def throw_def Let_def split: sum.splits)

lemma callModel_events:
  "fst (callModel service token model temp maxTokens systemPrompt prompt) =
     [Fetch \<lparr>url = MODELS_ENDPOINT, authorization = str ''Bearer '' @ token,
             payload = ChatBody model maxTokens temp
                         [(str ''system'', systemPrompt), (str ''user'', prompt)]\<rparr>]"
  by (auto simp: callModel_def fetch_def fst_bind lift_def throw_def ret_def Let_def
      split: sum.splits)

lemma buildPrompt_blank_community:
  "buildPrompt override a b summaries (Some []) tn hs cta ex
     = buildPrompt override a b summaries None tn hs cta ex"
  by (simp add: buildPrompt_def promptParts_def)

lemma run_events: "\<exists>tail. run w = fst (runBody w) @ tail"
  by (cases "runBody w") (auto simp: run_def split: sum.splits)

lemma promptParts_head:
  "\<exists>more. promptParts a b summaries None tn hs cta ex =
     str ''You are a concise social media writer for X. Compose a single post (no thread) under 280 characters.''
     # (str ''Summarize '' @ dec (length summaries) @ str '' commit(s) between '' @ a
          @ str '' and '' @ b @ str '' with a focus on what users will notice.'')
     # str ''This message will post to the main timeline.'' # more"
  by (simp add: promptParts_def)

text \<open>
  C10. The community input is trimmed when the configuration is read, and only the
  trimmed value is used afterwards. So when the community input is empty or holds only
  white space, the run is the same as with the empty input and the configuration holds
  the empty community; and when the run gets as far as the completion call and that
  call returns a post, the user prompt that \<open>run\<close> sends to the completion service is
  the prompt composed with no community (without an override its destination fragment is
  the main-timeline sentence), and the publish request that \<open>run\<close> sends next goes to
  the main-timeline endpoint, its body holding the text only.
\<close>

theorem blank_community_is_no_community:
  assumes "trim (input_community w) = []"
    and "readConfig w = (e0, Inr cfg)"
    and "collectCommits (execSync w) (startRef cfg) (endRefInput cfg) (includeStartCommit cfg)
           = (e1, Inr (a, b, order))"
    and "order \<noteq> []"
    and "collectSummaries (execSync w) (maxDiffChars cfg) (diffPaths cfg) (length order) 0 order
           = (e2, Inr summaries)"
    and "snd (callModel (completionService w) (githubToken cfg)
                (orDefault (input_model w) (str ''openai/gpt-4o-mini'')) (temperature cfg)
                (maxOutputTokens cfg) (orDefault (input_system_prompt w) DEFAULT_SYSTEM_PROMPT)
                (buildPrompt (Some (input_prompt w)) a b summaries None (Some (input_tone w))
                   (Some (parseHashtags (input_hashtags w))) (Some (input_call_to_action w))
                   (Some (input_extra_instructions w)))) = Inr post"
  shows "run w = run (w\<lparr>input_community := []\<rparr>)
         \<and> communityInput cfg = []
         \<and> (\<exists>tail. run w =
               e1 @ e2 @
               [Info (str ''Requesting post copy from model \"''
                        @ orDefault (input_model w) (str ''openai/gpt-4o-mini'') @ str ''\"...''),
                Fetch \<lparr>url = MODELS_ENDPOINT,
                        authorization = str ''Bearer '' @ githubToken cfg,
                        payload = ChatBody (orDefault (input_model w) (str ''openai/gpt-4o-mini''))
                                    (maxOutputTokens cfg) (temperature cfg)
                                    [(str ''system'', orDefault (input_system_prompt w) DEFAULT_SYSTEM_PROMPT),
                                     (str ''user'',
                                      buildPrompt (Some (input_prompt w)) a b summaries None
                                        (Some (input_tone w)) (Some (parseHashtags (input_hashtags w)))
                                        (Some (input_call_to_action w))
                                        (Some (input_extra_instructions w)))]\<rparr>,
                Info (str ''Publishing generated post to X...''),
                Fetch \<lparr>url = str ''https://api.twitter.com/2/tweets'',
                        authorization = str ''Bearer '' @ xBearerToken cfg,
                        payload = PostBody post\<rparr>] @ tail)
         \<and> (input_prompt w = [] \<longrightarrow>
              (\<exists>more.
                 buildPrompt (Some (input_prompt w)) a b summaries None (Some (input_tone w))
                   (Some (parseHashtags (input_hashtags w))) (Some (input_call_to_action w))
                   (Some (input_extra_instructions w))
                 = join (str ''\<newline>\<newline>'')
                     (str ''You are a concise social media writer for X. Compose a single post (no thread) under 280 characters.''
                      # (str ''Summarize '' @ dec (length summaries) @ str '' commit(s) between '' @ a
                           @ str '' and '' @ b @ str '' with a focus on what users will notice.'')
                      # str ''This message will post to the main timeline.'' # more)))"
proof -
  let ?model = "orDefault (input_model w) (str ''openai/gpt-4o-mini'')"
  let ?system = "orDefault (input_system_prompt w) DEFAULT_SYSTEM_PROMPT"
  let ?prompt = "buildPrompt (Some (input_prompt w)) a b summaries None (Some (input_tone w))
                   (Some (parseHashtags (input_hashtags w))) (Some (input_call_to_action w))
                   (Some (input_extra_instructions w))"
  let ?creq = "\<lparr>url = MODELS_ENDPOINT,
                authorization = str ''Bearer '' @ githubToken cfg,
                payload = ChatBody ?model (maxOutputTokens cfg) (temperature cfg)
                            [(str ''system'', ?system), (str ''user'', ?prompt)]\<rparr>"
  let ?preq = "\<lparr>url = str ''https://api.twitter.com/2/tweets'',
                authorization = str ''Bearer '' @ xBearerToken cfg,
                payload = PostBody post\<rparr>"
  have same: "run w = run (w\<lparr>input_community := []\<rparr>)"
  proof -
    have "run (w\<lparr>input_community := input_community w\<rparr>) = run (w\<lparr>input_community := []\<rparr>)"
      by (simp only: run_def runBody_community readConfig_blank_community [OF assms(1)])
    then show ?thesis by simp
  qed
  have com: "communityInput cfg = []"
    using readConfig_community [OF assms(2)] assms(1) by simp
  have e0: "e0 = []"
    using readConfig_no_events [of w] assms(2) by simp
  have prompt: "runPrompt w cfg a b summaries = ?prompt"
    by (simp add: runPrompt_def com buildPrompt_blank_community)
  have call: "callModel (completionService w) (githubToken cfg) ?model (temperature cfg)
                (maxOutputTokens cfg) ?system ?prompt = ([Fetch ?creq], Inr post)"
    using assms(6) callModel_events [of "completionService w" "githubToken cfg" ?model
        "temperature cfg" "maxOutputTokens cfg" ?system ?prompt]
    by (simp add: prod_eq_iff)
  have "\<exists>rest. fst (generateAndPublish w cfg a b summaries) =
      [Info (str ''Requesting post copy from model \"'' @ ?model @ str ''\"...''),
       Fetch ?creq, Info (str ''Publishing generated post to X...''), Fetch ?preq] @ rest"
    unfolding generateAndPublish_def Let_def prompt
    by (simp add: fst_bind emit_def call com postToX_main_timeline)
  then obtain rest where gen: "fst (generateAndPublish w cfg a b summaries) =
      [Info (str ''Requesting post copy from model \"'' @ ?model @ str ''\"...''),
       Fetch ?creq, Info (str ''Publishing generated post to X...''), Fetch ?preq] @ rest"
    by blast
  have body: "fst (runBody w) = e1 @ e2 @ fst (generateAndPublish w cfg a b summaries)"
    by (simp add: runBody_def assms(2-5) e0 bind_Inr)
  obtain tail where "run w = fst (runBody w) @ tail"
    using run_events [of w] by blast
  then have "run w = e1 @ e2 @
      [Info (str ''Requesting post copy from model \"'' @ ?model @ str ''\"...''),
       Fetch ?creq, Info (str ''Publishing generated post to X...''), Fetch ?preq] @ (rest @ tail)"
    by (simp add: body gen)
  then have events: "\<exists>tail. run w = e1 @ e2 @
      [Info (str ''Requesting post copy from model \"'' @ ?model @ str ''\"...''),
       Fetch ?creq, Info (str ''Publishing generated post to X...''), Fetch ?preq] @ tail"
    by blast
  have main: "input_prompt w = [] \<longrightarrow>
      (\<exists>more. ?prompt = join (str ''\<newline>\<newline>'')
         (str ''You are a concise social media writer for X. Compose a single post (no thread) under 280 characters.''
          # (str ''Summarize '' @ dec (length summaries) @ str '' commit(s) between '' @ a
               @ str '' and '' @ b @ str '' with a focus on what users will notice.'')
          # str ''This message will post to the main timeline.'' # more))"
  proof
    assume none: "input_prompt w = []"
    have eq: "?prompt = join (str ''\<newline>\<newline>'')
        (promptParts a b summaries None (Some (input_tone w))
           (Some (parseHashtags (input_hashtags w))) (Some (input_call_to_action w))
           (Some (input_extra_instructions w)))"
      by (simp add: buildPrompt_def none)
    obtain more where parts: "promptParts a b summaries None (Some (input_tone w))
        (Some (parseHashtags (input_hashtags w))) (Some (input_call_to_action w))
        (Some (input_extra_instructions w)) =
      str ''You are a concise social media writer for X. Compose a single post (no thread) under 280 characters.''
      # (str ''Summarize '' @ dec (length summaries) @ str '' commit(s) between '' @ a
           @ str '' and '' @ b @ str '' with a focus on what users will notice.'')
      # str ''This message will post to the main timeline.'' # more"
      using promptParts_head by blast
    show "\<exists>more. ?prompt = join (str ''\<newline>\<newline>'')
         (str ''You are a concise social media writer for X. Compose a single post (no thread) under 280 characters.''
          # (str ''Summarize '' @ dec (length summaries) @ str '' commit(s) between '' @ a
               @ str '' and '' @ b @ str '' with a focus on what users will notice.'')
          # str ''This message will post to the main timeline.'' # more)"
      by (intro exI [of _ more]) (simp only: eq parts)
  qed
  from same com events main show ?thesis by (intro conjI)
qed

theorem blank_community_is_no_community_witness:
  "trim (input_community (demoWorld (str ''b2\<newline>'') (str ''0.5'') [0x20, 0x9, 0x20] (str ''Hi''))) = []
   \<and> run (demoWorld (str ''b2\<newline>'') (str ''0.5'') [0x20, 0x9, 0x20] (str ''Hi''))
       = run ((demoWorld (str ''b2\<newline>'') (str ''0.5'') [0x20, 0x9, 0x20] (str ''Hi''))\<lparr>input_community := []\<rparr>)
   \<and> (\<exists>tail. run (demoWorld (str ''b2\<newline>'') (str ''0.5'') [0x20, 0x9, 0x20] (str ''Hi'')) =
         fst (collectCommits (demoShell (str ''b2\<newline>'')) (str ''a1'') [] False)
         @ fst (collectSummaries (demoShell (str ''b2\<newline>'')) 2000 [] 1 0 [str ''b2''])
         @ [Info (str ''Requesting post copy from model \"'' @ str ''openai/gpt-4o-mini'' @ str ''\"...''),
            Fetch \<lparr>url = MODELS_ENDPOINT,
                    authorization = str ''Bearer '' @ str ''ghs'',
                    payload = ChatBody (str ''openai/gpt-4o-mini'') 400 (Finite (1 / 2))
                                [(str ''system'', DEFAULT_SYSTEM_PROMPT),
                                 (str ''user'',
                                  buildPrompt (Some []) (str ''a1'') (str ''b2'')
                                    [str ''Commit: b2\<newline>\<newline>Title: Fix login\<newline>\<newline>Diff preview:\<newline>+ok\<newline>'']
                                    None (Some []) (Some []) (Some []) (Some []))]\<rparr>,
            Info (str ''Publishing generated post to X...''),
            Fetch \<lparr>url = str ''https://api.twitter.com/2/tweets'',
                    authorization = str ''Bearer '' @ str ''xbt'',
                    payload = PostBody (str ''Hi'')\<rparr>] @ tail)"
proof -
  let ?w = "demoWorld (str ''b2\<newline>'') (str ''0.5'') [0x20, 0x9, 0x20] (str ''Hi'')"
  let ?cfg = "demoConfig []"
  let ?summary = "str ''Commit: b2\<newline>\<newline>Title: Fix login\<newline>\<newline>Diff preview:\<newline>+ok\<newline>''"
  let ?e1 = "fst (collectCommits (demoShell (str ''b2\<newline>'')) (str ''a1'') [] False)"
  let ?e2 = "fst (collectSummaries (demoShell (str ''b2\<newline>'')) 2000 [] 1 0 [str ''b2''])"
  have blank: "trim (input_community ?w) = []"
    by code_simp
  have c: "readConfig ?w = ([], Inr ?cfg)"
    by code_simp
  have r: "collectCommits (execSync ?w) (startRef ?cfg) (endRefInput ?cfg) (includeStartCommit ?cfg)
      = (?e1, Inr (str ''a1'', str ''b2'', [str ''b2'']))"
    by code_simp
  have ne: "[str ''b2''] \<noteq> []"
    by simp
  have s: "collectSummaries (execSync ?w) (maxDiffChars ?cfg) (diffPaths ?cfg) (length [str ''b2'']) 0
        [str ''b2''] = (?e2, Inr [?summary])"
    by code_simp
  have m: "snd (callModel (completionService ?w) (githubToken ?cfg)
                (orDefault (input_model ?w) (str ''openai/gpt-4o-mini'')) (temperature ?cfg)
                (maxOutputTokens ?cfg) (orDefault (input_system_prompt ?w) DEFAULT_SYSTEM_PROMPT)
                (buildPrompt (Some (input_prompt ?w)) (str ''a1'') (str ''b2'') [?summary] None
                   (Some (input_tone ?w)) (Some (parseHashtags (input_hashtags ?w)))
                   (Some (input_call_to_action ?w)) (Some (input_extra_instructions ?w))))
      = Inr (str ''Hi'')"
    by code_simp
  have fields:
    "orDefault (input_model ?w) (str ''openai/gpt-4o-mini'') = str ''openai/gpt-4o-mini''"
    "orDefault (input_system_prompt ?w) DEFAULT_SYSTEM_PROMPT = DEFAULT_SYSTEM_PROMPT"
    "githubToken ?cfg = str ''ghs''" "xBearerToken ?cfg = str ''xbt''"
    "maxOutputTokens ?cfg = 400" "temperature ?cfg = Finite (1 / 2)"
    "input_prompt ?w = []" "input_tone ?w = []" "input_call_to_action ?w = []"
    "input_extra_instructions ?w = []" "parseHashtags (input_hashtags ?w) = []"
    by (simp_all add: demoWorld_def demoConfig_def orDefault_def) code_simp+
  note claim = blank_community_is_no_community [OF blank c r ne s m]
  from claim have same: "run ?w = run (?w\<lparr>input_community := []\<rparr>)"
    by (rule conjunct1)
  from claim have "\<exists>tail. run ?w =
         ?e1 @ ?e2
         @ [Info (str ''Requesting post copy from model \"'' @ str ''openai/gpt-4o-mini'' @ str ''\"...''),
            Fetch \<lparr>url = MODELS_ENDPOINT,
                    authorization = str ''Bearer '' @ str ''ghs'',
                    payload = ChatBody (str ''openai/gpt-4o-mini'') 400 (Finite (1 / 2))
                                [(str ''system'', DEFAULT_SYSTEM_PROMPT),
                                 (str ''user'',
                                  buildPrompt (Some []) (str ''a1'') (str ''b2'') [?summary]
                                    None (Some []) (Some []) (Some []) (Some []))]\<rparr>,
            Info (str ''Publishing generated post to X...''),
            Fetch \<lparr>url = str ''https://api.twitter.com/2/tweets'',
                    authorization = str ''Bearer '' @ str ''xbt'',
                    payload = PostBody (str ''Hi'')\<rparr>] @ tail"
    unfolding fields by (rule conjunct1 [OF conjunct2 [OF conjunct2]])
  with blank same show ?thesis by (intro conjI)
qed

end
